theory Spec2Isabelle
  imports Main
begin

section \<open>Values, items and the world the stages act on\<close>

text \<open>
  The pipeline stages of \<^verbatim>\<open>pipeline/archivebot/seesaw/tasks.py\<close> act on a shared,
  mutable work item. An attribute of an item holds a Python value; the values that the
  stages store or read are strings, booleans, \<^verbatim>\<open>None\<close>, the heartbeat timer handle and
  the metadata dictionary.
\<close>

datatype pyval =
    PNone
  | PBool bool
  | PStr string
  | PTimer nat
  | PDict "(string \<times> pyval) list"

text \<open>
  The filesystem calls a stage makes, in the order it makes them. \<open>WriteJson p v\<close> is
  \<^verbatim>\<open>f.write(json.dumps(v, indent=True))\<close> on the file opened at \<open>p\<close>.
\<close>

datatype fs_call =
    Rmtree string
  | Makedirs string
  | Rename string string
  | OpenW string
  | WriteJson string pyval

datatype error =
    KeyError string
  | TypeError
  | AttributeError
  | OSError fs_call
  | ConnectionLost
  | ControlFailure string
  | Unmodelled

text \<open>
  An item: its keyed attributes (\<^verbatim>\<open>item[k]\<close>), its output log, and the two
  cancellation flags that \<^verbatim>\<open>RetryableTask\<close> reads and writes.
\<close>

record item =
  attrs :: "string \<rightharpoonup> pyval"
  log_lines :: "string list"
  may_be_canceled :: bool
  canceled :: bool

text \<open>
  The retryable stages. \<^verbatim>\<open>GetItemFromQueue\<close> is constructed with a pipeline id and
  a retry delay, \<^verbatim>\<open>MarkItemAsDone\<close> with an expiry time; the control client each of
  them holds is passed to \<open>process\<close> separately.
\<close>

datatype task =
    GetItemFromQueue string int
  | RelabelIfAborted
  | SetWarcFileSizeInRedis
  | MarkItemAsDone int

text \<open>
  What a call to the control client does: it returns a value, raises
  \<^verbatim>\<open>archivebot.control.ConnectionError\<close>, or raises something else.
\<close>

datatype 'a reply = Returns 'a | ConnectionError | Fails string

record control =
  reserve_job :: "string \<Rightarrow> (string option \<times> (string \<rightharpoonup> pyval)) reply"
  is_aborted :: "pyval \<Rightarrow> bool reply"
  heartbeat :: "pyval \<Rightarrow> unit reply"
  set_warc_size :: "pyval \<Rightarrow> pyval \<Rightarrow> unit reply"
  mark_done :: "item \<Rightarrow> int \<Rightarrow> unit reply"

text \<open>
  A periodic callback of the event loop: its period in milliseconds, the item whose
  heartbeat it sends, and whether it is running.
\<close>

record timer =
  period :: nat
  beats_for :: nat
  running :: bool

text \<open>
  The world: the items by reference, the timeouts pending on the event loop (delay in
  seconds, the task whose \<open>retry\<close> is the callback, the item it is bound to), the
  \<^verbatim>\<open>complete_item\<close> calls made so far, the periodic callbacks, and the filesystem
  calls made so far.
\<close>

record world =
  items :: "nat \<Rightarrow> item"
  timeouts :: "(int \<times> task \<times> nat) list"
  completed :: "(task \<times> nat) list"
  timers :: "nat \<Rightarrow> timer"
  fresh_timer :: nat
  fs_calls :: "fs_call list"

text \<open>
  The outcome of a call: the exception it raised, if any, and the world it left.
\<close>

type_synonym outcome = "error option \<times> world"

definition on_value :: "error + 'a \<Rightarrow> world \<Rightarrow> ('a \<Rightarrow> outcome) \<Rightarrow> outcome" where
  "on_value x w f = (case x of Inl e \<Rightarrow> (Some e, w) | Inr v \<Rightarrow> f v)"

definition and_then :: "outcome \<Rightarrow> (world \<Rightarrow> outcome) \<Rightarrow> outcome" where
  "and_then x f = (case x of (Some e, w) \<Rightarrow> (Some e, w) | (None, w) \<Rightarrow> f w)"

section \<open>Item access and string formatting\<close>

definition getitem :: "nat \<Rightarrow> string \<Rightarrow> world \<Rightarrow> error + pyval" where
  "getitem r k w = (case attrs (items w r) k of None \<Rightarrow> Inl (KeyError k) | Some v \<Rightarrow> Inr v)"

definition setitem :: "nat \<Rightarrow> string \<Rightarrow> pyval \<Rightarrow> world \<Rightarrow> world" where
  "setitem r k v w = w\<lparr>items := (items w)(r := (items w r)\<lparr>attrs := (attrs (items w r))(k \<mapsto> v)\<rparr>)\<rparr>"

definition delitem :: "nat \<Rightarrow> string \<Rightarrow> world \<Rightarrow> world" where
  "delitem r k w = w\<lparr>items := (items w)(r := (items w r)\<lparr>attrs := (attrs (items w r))(k := None)\<rparr>)\<rparr>"

text \<open>
  \<^verbatim>\<open>'%s' % v\<close>. The text of a timer object (it holds a memory address) and of a
  dictionary is not modelled.
\<close>

fun py_str :: "pyval \<Rightarrow> error + string" where
  "py_str (PStr s) = Inr s"
| "py_str PNone = Inr ''None''"
| "py_str (PBool b) = Inr (if b then ''True'' else ''False'')"
| "py_str (PTimer h) = Inl Unmodelled"
| "py_str (PDict d) = Inl Unmodelled"

text \<open>\<^verbatim>\<open>'%(k)s' % item\<close>: the lookup raises \<^verbatim>\<open>KeyError\<close> on a missing key.\<close>

definition fmt :: "nat \<Rightarrow> string \<Rightarrow> world \<Rightarrow> error + string" where
  "fmt r k w = (case getitem r k w of Inl e \<Rightarrow> Inl e | Inr v \<Rightarrow> py_str v)"

definition digit :: "nat \<Rightarrow> char" where
  "digit n = ''0123456789'' ! (n mod 10)"

fun str_nat :: "nat \<Rightarrow> string" where
  "str_nat n = (if n < 10 then [digit n] else str_nat (n div 10) @ [digit n])"

declare str_nat.simps [simp del]

definition str_int :: "int \<Rightarrow> string" where
  "str_int i = (if i < 0 then CHR ''-'' # str_nat (nat (- i)) else str_nat (nat i))"

section \<open>RetryableTask\<close>

fun task_name :: "task \<Rightarrow> string" where
  "task_name (GetItemFromQueue pipeline_id delay) = ''GetItemFromQueue''"
| "task_name RelabelIfAborted = ''RelabelIfAborted''"
| "task_name SetWarcFileSizeInRedis = ''SetWarcFileSizeInRedis''"
| "task_name (MarkItemAsDone expire_time) = ''MarkItemAsDone''"

fun retry_delay :: "task \<Rightarrow> int" where
  "retry_delay (GetItemFromQueue pipeline_id delay) = delay"
| "retry_delay t = 5"

fun cancelable :: "task \<Rightarrow> bool" where
  "cancelable (GetItemFromQueue pipeline_id delay) = True"
| "cancelable t = False"

text \<open>
  Modelled from the spec: \<^verbatim>\<open>item.log_output\<close>, \<^verbatim>\<open>Task.complete_item\<close> and the text
  of a task belong to the seesaw library. The item is "also an append-only output log";
  \<open>complete\<close> is the hook "that hands the item to the next stage", recorded here as a
  call; a stage is named in a notice by the name it was constructed with.
\<close>

definition log_output :: "string \<Rightarrow> nat \<Rightarrow> world \<Rightarrow> world" where
  "log_output s r w = w\<lparr>items := (items w)(r := (items w r)\<lparr>log_lines := log_lines (items w r) @ [s]\<rparr>)\<rparr>"

definition complete_item :: "task \<Rightarrow> nat \<Rightarrow> world \<Rightarrow> world" where
  "complete_item t r w = w\<lparr>completed := completed w @ [(t, r)]\<rparr>"

definition schedule_retry :: "task \<Rightarrow> nat \<Rightarrow> world \<Rightarrow> world" where
  "schedule_retry t r w =
     w\<lparr>items := (items w)(r := (items w r)\<lparr>may_be_canceled := cancelable t\<rparr>),
       timeouts := timeouts w @ [(retry_delay t, t, r)]\<rparr>"

definition notify_retry :: "string \<Rightarrow> task \<Rightarrow> nat \<Rightarrow> world \<Rightarrow> world" where
  "notify_retry reason t r w =
     log_output (reason @ ''. Retrying '' @ task_name t @ '' in '' @ str_int (retry_delay t) @ '' seconds.'') r w"

definition notify_connection_error :: "task \<Rightarrow> nat \<Rightarrow> world \<Rightarrow> world" where
  "notify_connection_error t r w = notify_retry ''Lost connection to ArchiveBot controller'' t r w"

definition on_connection_error :: "task \<Rightarrow> nat \<Rightarrow> world \<Rightarrow> outcome" where
  \<comment> \<open>the body of every \<^verbatim>\<open>except ConnectionError:\<close> clause\<close>
  "on_connection_error t r w = (None, schedule_retry t r (notify_connection_error t r w))"

section \<open>TargetPathMixin\<close>

definition set_target_paths :: "nat \<Rightarrow> world \<Rightarrow> outcome" where
  "set_target_paths r w =
     on_value (fmt r ''data_dir'' w) w (\<lambda>d.
     on_value (fmt r ''warc_file_base'' w) w (\<lambda>b.
       let w1 = setitem r ''target_warc_file'' (PStr (d @ ''/'' @ b @ ''.warc.gz'')) w in
       on_value (fmt r ''data_dir'' w1) w1 (\<lambda>d1.
       on_value (fmt r ''warc_file_base'' w1) w1 (\<lambda>b1.
         (None, setitem r ''target_info_file'' (PStr (d1 @ ''/'' @ b1 @ ''.json'')) w1)))))"

section \<open>The process method of each retryable stage\<close>

definition job_get :: "(string \<rightharpoonup> pyval) \<Rightarrow> string \<Rightarrow> pyval" where
  \<comment> \<open>\<^verbatim>\<open>job_data.get(k)\<close>\<close>
  "job_get job_data k = (case job_data k of None \<Rightarrow> PNone | Some v \<Rightarrow> v)"

definition populate :: "string \<Rightarrow> string \<Rightarrow> (string \<rightharpoonup> pyval) \<Rightarrow> nat \<Rightarrow> world \<Rightarrow> world" where
  \<comment> \<open>the nine assignments of \<^verbatim>\<open>GetItemFromQueue.process\<close>, in their order\<close>
  "populate pipeline_id ident job_data r w =
     setitem r ''url'' (job_get job_data ''url'')
    (setitem r ''started_in'' (job_get job_data ''started_in'')
    (setitem r ''started_by'' (job_get job_data ''started_by'')
    (setitem r ''slug'' (job_get job_data ''slug'')
    (setitem r ''queued_at'' (job_get job_data ''queued_at'')
    (setitem r ''pipeline_id'' (PStr pipeline_id)
    (setitem r ''log_key'' (job_get job_data ''log_key'')
    (setitem r ''ident'' (PStr ident)
    (setitem r ''fetch_depth'' (job_get job_data ''fetch_depth'') w))))))))"

definition relabel :: "nat \<Rightarrow> world \<Rightarrow> outcome" where
  \<comment> \<open>the body of the \<^verbatim>\<open>if\<close> of \<^verbatim>\<open>RelabelIfAborted.process\<close>\<close>
  "relabel r w =
     (let w1 = setitem r ''aborted'' (PBool True) w in
      on_value (fmt r ''warc_file_base'' w1) w1 (\<lambda>b.
        let w2 = setitem r ''warc_file_base'' (PStr (b @ ''-aborted'')) w1 in
        and_then (set_target_paths r w2) (\<lambda>w3.
        on_value (fmt r ''target_warc_file'' w3) w3 (\<lambda>p.
          (None, log_output (''Adjusted target WARC path to '' @ p) r w3)))))"

fun process :: "control \<Rightarrow> task \<Rightarrow> nat \<Rightarrow> world \<Rightarrow> outcome" where
  "process ctl (GetItemFromQueue pipeline_id delay) r w =
     (case reserve_job ctl pipeline_id of
        ConnectionError \<Rightarrow> on_connection_error (GetItemFromQueue pipeline_id delay) r w
      | Fails x \<Rightarrow> (Some (ControlFailure x), w)
      | Returns (None, job_data) \<Rightarrow> (None, schedule_retry (GetItemFromQueue pipeline_id delay) r w)
      | Returns (Some ident, job_data) \<Rightarrow>
          (None, complete_item (GetItemFromQueue pipeline_id delay) r
                   (log_output (''Received item '' @ ident @ ''.'') r
                     (populate pipeline_id ident job_data r w))))"
| "process ctl RelabelIfAborted r w =
     on_value (getitem r ''ident'' w) w (\<lambda>ident.
       case is_aborted ctl ident of
         ConnectionError \<Rightarrow> on_connection_error RelabelIfAborted r w
       | Fails x \<Rightarrow> (Some (ControlFailure x), w)
       | Returns aborted \<Rightarrow>
           if aborted
           then and_then (relabel r w) (\<lambda>w'. (None, complete_item RelabelIfAborted r w'))
           else (None, complete_item RelabelIfAborted r w))"
| "process ctl SetWarcFileSizeInRedis r w =
     on_value (getitem r ''ident'' w) w (\<lambda>ident.
     on_value (getitem r ''target_warc_file'' w) w (\<lambda>path.
       case set_warc_size ctl ident path of
         ConnectionError \<Rightarrow> on_connection_error SetWarcFileSizeInRedis r w
       | Fails x \<Rightarrow> (Some (ControlFailure x), w)
       | Returns u \<Rightarrow> (None, complete_item SetWarcFileSizeInRedis r w)))"
| "process ctl (MarkItemAsDone expire_time) r w =
     (case mark_done ctl (items w r) expire_time of
        ConnectionError \<Rightarrow> on_connection_error (MarkItemAsDone expire_time) r w
      | Fails x \<Rightarrow> (Some (ControlFailure x), w)
      | Returns u \<Rightarrow> (None, complete_item (MarkItemAsDone expire_time) r w))"

definition retry :: "control \<Rightarrow> task \<Rightarrow> nat \<Rightarrow> world \<Rightarrow> outcome" where
  "retry ctl t r w =
     (if \<not> canceled (items w r)
      then process ctl t r (w\<lparr>items := (items w)(r := (items w r)\<lparr>may_be_canceled := False\<rparr>)\<rparr>)
      else (None, w))"

section \<open>The simple stages\<close>

text \<open>
  What the simple stages read from outside the item: whether a path is a directory,
  whether an operating-system call fails, and the local time.
\<close>

record struct_time =
  tm_year :: nat
  tm_mon :: nat
  tm_mday :: nat
  tm_hour :: nat
  tm_min :: nat
  tm_sec :: nat

record env =
  isdir :: "string \<Rightarrow> bool"
  os_fails :: "fs_call \<Rightarrow> bool"
  localtime :: struct_time

definition os_call :: "env \<Rightarrow> fs_call \<Rightarrow> world \<Rightarrow> outcome" where
  "os_call e c w =
     (if os_fails e c then (Some (OSError c), w) else (None, w\<lparr>fs_calls := fs_calls w @ [c]\<rparr>))"

fun as_path :: "pyval \<Rightarrow> error + string" where
  "as_path (PStr s) = Inr s"
| "as_path v = Inl TypeError"

text \<open>\<^verbatim>\<open>time.strftime\<close>, for the directives of the format this file uses.\<close>

definition pad2 :: "nat \<Rightarrow> string" where
  "pad2 n = (if n < 10 then CHR ''0'' # str_nat n else str_nat n)"

definition directive :: "char \<Rightarrow> struct_time \<Rightarrow> string" where
  "directive c tm =
     (if c = CHR ''Y'' then str_nat (tm_year tm)
      else if c = CHR ''m'' then pad2 (tm_mon tm)
      else if c = CHR ''d'' then pad2 (tm_mday tm)
      else if c = CHR ''H'' then pad2 (tm_hour tm)
      else if c = CHR ''M'' then pad2 (tm_min tm)
      else if c = CHR ''S'' then pad2 (tm_sec tm)
      else [CHR ''%'', c])"

fun strftime :: "string \<Rightarrow> struct_time \<Rightarrow> string" where
  "strftime (c # d # cs) tm =
     (if c = CHR ''%'' then directive d tm @ strftime cs tm else c # strftime (d # cs) tm)"
| "strftime [c] tm = [c]"
| "strftime [] tm = []"

subsection \<open>StartHeartbeat\<close>

definition process_StartHeartbeat :: "nat \<Rightarrow> world \<Rightarrow> outcome" where
  "process_StartHeartbeat r w =
     (let cb = fresh_timer w;
          w1 = w\<lparr>timers := (timers w)(cb := \<lparr>period = 1000, beats_for = r, running = False\<rparr>),
                 fresh_timer := Suc cb\<rparr>;
          w2 = setitem r ''heartbeat'' (PTimer cb) w1
      in (None, w2\<lparr>timers := (timers w2)(cb := (timers w2 cb)\<lparr>running := True\<rparr>)\<rparr>))"

definition send_heartbeat :: "control \<Rightarrow> nat \<Rightarrow> world \<Rightarrow> outcome" where
  "send_heartbeat ctl r w =
     on_value (getitem r ''ident'' w) w (\<lambda>ident.
       case heartbeat ctl ident of
         ConnectionError \<Rightarrow> (Some ConnectionLost, w)
       | Fails x \<Rightarrow> (Some (ControlFailure x), w)
       | Returns u \<Rightarrow> (None, w))"

subsection \<open>SetFetchDepth\<close>

definition process_SetFetchDepth :: "nat \<Rightarrow> world \<Rightarrow> outcome" where
  "process_SetFetchDepth r w =
     on_value (getitem r ''fetch_depth'' w) w (\<lambda>depth.
       if depth = PStr ''shallow''
       then (None, setitem r ''depth'' (PStr [])
                     (setitem r ''level'' (PStr [])
                       (setitem r ''recursive'' (PStr []) w)))
       else (None, setitem r ''depth'' depth
                     (setitem r ''level'' (PStr ''--level'')
                       (setitem r ''recursive'' (PStr ''--recursive'') w))))"

subsection \<open>PreparePaths\<close>

fun first_five :: "pyval \<Rightarrow> error + string" where
  "first_five (PStr s) = Inr (take 5 s)"
| "first_five v = Inl TypeError"

definition process_PreparePaths :: "env \<Rightarrow> nat \<Rightarrow> world \<Rightarrow> outcome" where
  "process_PreparePaths e r w =
     on_value (fmt r ''data_dir'' w) w (\<lambda>d.
     on_value (fmt r ''ident'' w) w (\<lambda>i.
     let item_dir = d @ ''/'' @ i in
     on_value (getitem r ''ident'' w) w (\<lambda>ident.
     on_value (first_five ident) w (\<lambda>last_five.
     and_then (if isdir e item_dir then os_call e (Rmtree item_dir) w else (None, w)) (\<lambda>w1.
     and_then (os_call e (Makedirs item_dir) w1) (\<lambda>w2.
     let w3 = setitem r ''item_dir'' (PStr item_dir) w2 in
     on_value (getitem r ''slug'' w3) w3 (\<lambda>slug.
     on_value (py_str slug) w3 (\<lambda>s.
     let w4 = setitem r ''warc_file_base''
                (PStr (s @ ''-'' @ strftime ''%Y%m%d-%H%M%S'' (localtime e) @ ''-'' @ last_five)) w3 in
     on_value (fmt r ''item_dir'' w4) w4 (\<lambda>d4.
     on_value (fmt r ''warc_file_base'' w4) w4 (\<lambda>b4.
     let w5 = setitem r ''source_warc_file'' (PStr (d4 @ ''/'' @ b4 @ ''.warc.gz'')) w4 in
     on_value (fmt r ''item_dir'' w5) w5 (\<lambda>d5.
     on_value (fmt r ''warc_file_base'' w5) w5 (\<lambda>b5.
     let w6 = setitem r ''source_info_file'' (PStr (d5 @ ''/'' @ b5 @ ''.json'')) w5 in
     on_value (fmt r ''item_dir'' w6) w6 (\<lambda>d6.
     let w7 = setitem r ''cookie_jar'' (PStr (d6 @ ''/cookies.txt'')) w6 in
     set_target_paths r w7)))))))))))))"

subsection \<open>MoveFiles\<close>

definition rename_attrs :: "env \<Rightarrow> string \<Rightarrow> string \<Rightarrow> nat \<Rightarrow> world \<Rightarrow> outcome" where
  "rename_attrs e a b r w =
     on_value (getitem r a w) w (\<lambda>src.
     on_value (getitem r b w) w (\<lambda>dst.
     on_value (as_path src) w (\<lambda>s.
     on_value (as_path dst) w (\<lambda>t.
       os_call e (Rename s t) w))))"

definition process_MoveFiles :: "env \<Rightarrow> nat \<Rightarrow> world \<Rightarrow> outcome" where
  "process_MoveFiles e r w =
     and_then (rename_attrs e ''source_warc_file'' ''target_warc_file'' r w) (\<lambda>w1.
     and_then (rename_attrs e ''source_info_file'' ''target_info_file'' r w1) (\<lambda>w2.
     on_value (fmt r ''item_dir'' w2) w2 (\<lambda>d.
       os_call e (Rmtree d) w2)))"

subsection \<open>WriteInfo\<close>

text \<open>Whether \<^verbatim>\<open>json.dumps\<close> accepts a value.\<close>

fun serialisable :: "pyval \<Rightarrow> bool" where
  "serialisable (PTimer h) = False"
| "serialisable (PDict kvs) = (\<forall>kv \<in> set kvs. serialisable (snd kv))"
| "serialisable v = True"

definition process_WriteInfo :: "env \<Rightarrow> nat \<Rightarrow> world \<Rightarrow> outcome" where
  "process_WriteInfo e r w =
     on_value (if ''aborted'' \<in> dom (attrs (items w r)) then getitem r ''aborted'' w
               else Inr (PBool False)) w (\<lambda>aborted.
     on_value (getitem r ''fetch_depth'' w) w (\<lambda>fetch_depth.
     on_value (getitem r ''pipeline_id'' w) w (\<lambda>pipeline_id.
     on_value (getitem r ''queued_at'' w) w (\<lambda>queued_at.
     on_value (getitem r ''started_by'' w) w (\<lambda>started_by.
     on_value (getitem r ''started_in'' w) w (\<lambda>started_in.
     on_value (getitem r ''url'' w) w (\<lambda>url.
     let w1 = setitem r ''info''
                (PDict [(''aborted'', aborted),
                        (''fetch_depth'', fetch_depth),
                        (''pipeline_id'', pipeline_id),
                        (''queued_at'', queued_at),
                        (''started_by'', started_by),
                        (''started_in'', started_in),
                        (''url'', url)]) w in
     on_value (getitem r ''source_info_file'' w1) w1 (\<lambda>f.
     on_value (as_path f) w1 (\<lambda>p.
     and_then (os_call e (OpenW p) w1) (\<lambda>w2.
     on_value (getitem r ''info'' w2) w2 (\<lambda>info.
       if serialisable info then os_call e (WriteJson p info) w2
       else (Some TypeError, w2))))))))))))"

subsection \<open>StopHeartbeat\<close>

definition process_StopHeartbeat :: "nat \<Rightarrow> world \<Rightarrow> outcome" where
  "process_StopHeartbeat r w =
     (case attrs (items w r) ''heartbeat'' of
        Some (PTimer cb) \<Rightarrow>
          (None, delitem r ''heartbeat'' (w\<lparr>timers := (timers w)(cb := (timers w cb)\<lparr>running := False\<rparr>)\<rparr>))
      | Some v \<Rightarrow> (Some AttributeError, w)
      | None \<Rightarrow> (None, log_output ''Warning: couldn't find a heartbeat to stop'' r w))"

section \<open>The pipeline as a transition system\<close>

datatype simple_task =
    StartHeartbeat
  | SetFetchDepth
  | PreparePaths
  | MoveFiles
  | WriteInfo
  | StopHeartbeat

fun simple_process :: "env \<Rightarrow> simple_task \<Rightarrow> nat \<Rightarrow> world \<Rightarrow> outcome" where
  "simple_process e StartHeartbeat r w = process_StartHeartbeat r w"
| "simple_process e SetFetchDepth r w = process_SetFetchDepth r w"
| "simple_process e PreparePaths r w = process_PreparePaths e r w"
| "simple_process e MoveFiles r w = process_MoveFiles e r w"
| "simple_process e WriteInfo r w = process_WriteInfo e r w"
| "simple_process e StopHeartbeat r w = process_StopHeartbeat r w"

text \<open>
  Modelled from the spec: the event loop and the cancellation request are not in this
  file. A pending timeout fires by leaving the loop and calling its callback, the
  \<open>retry\<close> of its task on its item; the model lets any pending timeout fire.
  A cancellation request "only has effect while \<open>may_be_canceled\<close> is true", and then
  the item "has been marked \<open>canceled\<close>".
\<close>

definition fire :: "control \<Rightarrow> nat \<Rightarrow> world \<Rightarrow> outcome" where
  "fire ctl n w =
     (if n < length (timeouts w)
      then (case timeouts w ! n of
              (delay, t, r) \<Rightarrow>
                retry ctl t r (w\<lparr>timeouts := take n (timeouts w) @ drop (Suc n) (timeouts w)\<rparr>))
      else (None, w))"

definition cancel :: "nat \<Rightarrow> world \<Rightarrow> world" where
  "cancel r w =
     (if may_be_canceled (items w r)
      then w\<lparr>items := (items w)(r := (items w r)\<lparr>canceled := True\<rparr>)\<rparr>
      else w)"

text \<open>
  What can happen to the world: a stage runs \<open>process\<close> on an item, a pending timeout
  fires, a heartbeat is sent, a cancellation request arrives. The world after a call
  that raised is the world the call left.
\<close>

datatype event =
    Process control task nat
  | SimpleProcess env simple_task nat
  | Timeout control nat
  | Tick control nat
  | CancelRequest nat

fun step :: "event \<Rightarrow> world \<Rightarrow> world" where
  "step (Process ctl t r) w = snd (process ctl t r w)"
| "step (SimpleProcess e t r) w = snd (simple_process e t r w)"
| "step (Timeout ctl n) w = snd (fire ctl n w)"
| "step (Tick ctl r) w = snd (send_heartbeat ctl r w)"
| "step (CancelRequest r) w = cancel r w"

fun run :: "event list \<Rightarrow> world \<Rightarrow> world" where
  "run [] w = w"
| "run (ev # evs) w = run evs (step ev w)"

definition reservation_pending :: "nat \<Rightarrow> world \<Rightarrow> bool" where
  \<comment> \<open>a retry of the reservation stage is pending for the item\<close>
  "reservation_pending r w =
     (\<exists>x \<in> set (timeouts w). snd (snd x) = r \<and> cancelable (fst (snd x)))"

section \<open>Concrete items, controls and worlds\<close>

definition item_of :: "(string \<rightharpoonup> pyval) \<Rightarrow> item" where
  "item_of m = \<lparr>attrs = m, log_lines = [], may_be_canceled = False, canceled = False\<rparr>"

definition world_of :: "item \<Rightarrow> world" where
  "world_of it =
     \<lparr>items = (\<lambda>r. it), timeouts = [], completed = [],
      timers = (\<lambda>h. \<lparr>period = 0, beats_for = 0, running = False\<rparr>),
      fresh_timer = 0, fs_calls = []\<rparr>"

definition fresh_world :: world where
  "fresh_world = world_of (item_of Map.empty)"

definition lost_control :: control where
  "lost_control =
     \<lparr>reserve_job = (\<lambda>p. ConnectionError), is_aborted = (\<lambda>i. ConnectionError),
      heartbeat = (\<lambda>i. ConnectionError), set_warc_size = (\<lambda>i f. ConnectionError),
      mark_done = (\<lambda>it n. ConnectionError)\<rparr>"

definition idle_control :: control where
  "idle_control =
     \<lparr>reserve_job = (\<lambda>p. Returns (None, Map.empty)), is_aborted = (\<lambda>i. Returns False),
      heartbeat = (\<lambda>i. Returns ()), set_warc_size = (\<lambda>i f. Returns ()),
      mark_done = (\<lambda>it n. Returns ())\<rparr>"

definition scenario_job :: "string \<rightharpoonup> pyval" where
  "scenario_job =
     [''ident'' \<mapsto> PStr ''abc123'', ''slug'' \<mapsto> PStr ''example'',
      ''fetch_depth'' \<mapsto> PStr ''shallow'', ''url'' \<mapsto> PStr ''http://x'']"

definition serving_control :: control where
  "serving_control =
     \<lparr>reserve_job = (\<lambda>p. Returns (Some ''abc123'', scenario_job)),
      is_aborted = (\<lambda>i. Returns True),
      heartbeat = (\<lambda>i. Returns ()), set_warc_size = (\<lambda>i f. Returns ()),
      mark_done = (\<lambda>it n. Returns ())\<rparr>"

definition held_item :: item where
  "held_item =
     item_of [''data_dir'' \<mapsto> PStr ''/data'', ''ident'' \<mapsto> PStr ''abc123'',
              ''slug'' \<mapsto> PStr ''example'', ''fetch_depth'' \<mapsto> PStr ''5'',
              ''pipeline_id'' \<mapsto> PStr ''p1'', ''queued_at'' \<mapsto> PStr ''1394348703'',
              ''started_by'' \<mapsto> PStr ''alice'', ''started_in'' \<mapsto> PStr ''#chan'',
              ''url'' \<mapsto> PStr ''http://x'', ''log_key'' \<mapsto> PStr ''abc123_log'',
              ''warc_file_base'' \<mapsto> PStr ''example-20140309-070503-abc12'',
              ''source_info_file'' \<mapsto> PStr ''/data/abc123/example-20140309-070503-abc12.json'',
              ''target_warc_file'' \<mapsto> PStr ''/data/example-20140309-070503-abc12.warc.gz'']"

definition plain_env :: env where
  "plain_env =
     \<lparr>isdir = (\<lambda>p. False), os_fails = (\<lambda>c. False),
      localtime = \<lparr>tm_year = 2014, tm_mon = 3, tm_mday = 9, tm_hour = 7, tm_min = 5, tm_sec = 3\<rparr>\<rparr>"

definition bare_job :: "string \<rightharpoonup> pyval" where
  "bare_job = [''slug'' \<mapsto> PStr ''example'', ''url'' \<mapsto> PStr ''http://x'']"

definition bare_control :: control where
  "bare_control =
     \<lparr>reserve_job = (\<lambda>p. Returns (Some ''abc123'', bare_job)),
      is_aborted = (\<lambda>i. Returns False),
      heartbeat = (\<lambda>i. Returns ()), set_warc_size = (\<lambda>i f. Returns ()),
      mark_done = (\<lambda>it n. Returns ())\<rparr>"

section \<open>Predicates the properties are stated with\<close>

text \<open>
  The control call that \<open>process\<close> makes for the task, with the arguments it reads from
  the item, raises \<^verbatim>\<open>ConnectionError\<close>.
\<close>

definition hits_connection_lost :: "control \<Rightarrow> task \<Rightarrow> nat \<Rightarrow> world \<Rightarrow> bool" where
  "hits_connection_lost ctl t r w =
     (case t of
        GetItemFromQueue pipeline_id delay \<Rightarrow> reserve_job ctl pipeline_id = ConnectionError
      | RelabelIfAborted \<Rightarrow>
          (case attrs (items w r) ''ident'' of
             None \<Rightarrow> False
           | Some ident \<Rightarrow> is_aborted ctl ident = ConnectionError)
      | SetWarcFileSizeInRedis \<Rightarrow>
          (case (attrs (items w r) ''ident'', attrs (items w r) ''target_warc_file'') of
             (Some ident, Some path) \<Rightarrow> set_warc_size ctl ident path = ConnectionError
           | _ \<Rightarrow> False)
      | MarkItemAsDone expire_time \<Rightarrow> mark_done ctl (items w r) expire_time = ConnectionError)"

text \<open>
  The part of the world that cancellation depends on: the pending timeouts and the two
  flags of every item.
\<close>

definition cancel_view :: "world \<Rightarrow> (int \<times> task \<times> nat) list \<times> (nat \<Rightarrow> bool) \<times> (nat \<Rightarrow> bool)" where
  "cancel_view w = (timeouts w, (\<lambda>r. may_be_canceled (items w r)), (\<lambda>r. canceled (items w r)))"

text \<open>
  An item that may be canceled is already canceled or has a retry of the reservation
  stage pending.
\<close>

definition window_ok :: "world \<Rightarrow> bool" where
  "window_ok w = (\<forall>r. may_be_canceled (items w r) \<longrightarrow> canceled (items w r) \<or> reservation_pending r w)"

text \<open>The number of timeouts scheduled and completions made so far.\<close>

definition trace_size :: "world \<Rightarrow> nat" where
  "trace_size w = length (timeouts w) + length (completed w)"

section \<open>How the calls compose\<close>

lemma on_value_keeps:
  "g w = c \<Longrightarrow> (\<And>v. g (snd (f v)) = c) \<Longrightarrow> g (snd (on_value x w f)) = c"
  by (cases x) (simp_all add: on_value_def)

lemma and_then_keeps:
  "g (snd x) = c \<Longrightarrow> (\<And>w1. g w1 = c \<Longrightarrow> g (snd (f w1)) = c) \<Longrightarrow> g (snd (and_then x f)) = c"
  by (cases x; cases "fst x") (auto simp: and_then_def)

lemma on_value_holds:
  "P w \<Longrightarrow> (\<And>v. P (snd (f v))) \<Longrightarrow> P (snd (on_value x w f))"
  by (cases x) (simp_all add: on_value_def)

lemmas view_keeps = on_value_keeps [where g = cancel_view] and_then_keeps [where g = cancel_view]

subsection \<open>Calls that leave the cancellation view alone\<close>

lemma view_setitem: "cancel_view (setitem r k v w) = cancel_view w"
  by (auto simp: cancel_view_def setitem_def)

lemma view_delitem: "cancel_view (delitem r k w) = cancel_view w"
  by (auto simp: cancel_view_def delitem_def)

lemma view_log_output: "cancel_view (log_output s r w) = cancel_view w"
  by (auto simp: cancel_view_def log_output_def)

lemma view_complete_item: "cancel_view (complete_item t r w) = cancel_view w"
  by (simp add: cancel_view_def complete_item_def)

lemma view_os_call: "cancel_view (snd (os_call e c w)) = cancel_view w"
  by (simp add: cancel_view_def os_call_def)

lemma view_timers: "cancel_view (w\<lparr>timers := x\<rparr>) = cancel_view w"
  by (simp add: cancel_view_def)

lemma view_set_target_paths: "cancel_view (snd (set_target_paths r w)) = cancel_view w"
  unfolding set_target_paths_def Let_def
  by (intro view_keeps) (simp_all add: view_setitem)

lemma view_relabel: "cancel_view (snd (relabel r w)) = cancel_view w"
  unfolding relabel_def Let_def
  by (intro view_keeps) (simp_all add: view_setitem view_log_output view_set_target_paths)

lemma view_schedule_retry:
  "cancel_view (schedule_retry t r w) =
     (timeouts w @ [(retry_delay t, t, r)],
      (\<lambda>r'. if r' = r then cancelable t else may_be_canceled (items w r')),
      (\<lambda>r'. canceled (items w r')))"
  by (auto simp: cancel_view_def schedule_retry_def)

lemma view_on_connection_error:
  "cancel_view (snd (on_connection_error t r w)) = cancel_view (schedule_retry t r w)"
  by (auto simp: on_connection_error_def notify_connection_error_def notify_retry_def
      cancel_view_def schedule_retry_def log_output_def)

lemma view_eqD:
  assumes "cancel_view w' = cancel_view w"
  shows "timeouts w' = timeouts w"
    and "may_be_canceled (items w' r) = may_be_canceled (items w r)"
    and "canceled (items w' r) = canceled (items w r)"
  using assms by (auto simp: cancel_view_def dest: fun_cong)

text \<open>
  A retryable stage either leaves the view alone (it completed the item or raised) or
  changes it as \<open>schedule_retry\<close> does.
\<close>

lemma view_process:
  "cancel_view (snd (process ctl t r w)) = cancel_view w \<or>
   cancel_view (snd (process ctl t r w)) = cancel_view (schedule_retry t r w)"
proof (cases t)
  case (GetItemFromQueue p d)
  then show ?thesis
    by (simp add: view_on_connection_error view_complete_item view_log_output populate_def
        view_setitem split: reply.splits option.splits prod.splits)
next
  case RelabelIfAborted
  have "cancel_view (snd (and_then (relabel r w) (\<lambda>w'. (None, complete_item RelabelIfAborted r w')))) = cancel_view w"
    by (intro view_keeps) (simp_all add: view_relabel view_complete_item)
  then show ?thesis
    unfolding RelabelIfAborted process.simps
    by (intro on_value_holds [where P = "\<lambda>w'. cancel_view w' = cancel_view w \<or> cancel_view w' = cancel_view (schedule_retry RelabelIfAborted r w)"])
       (simp_all add: view_on_connection_error view_complete_item split: reply.splits)
next
  case SetWarcFileSizeInRedis
  show ?thesis
    unfolding SetWarcFileSizeInRedis process.simps
    by (intro on_value_holds [where P = "\<lambda>w'. cancel_view w' = cancel_view w \<or> cancel_view w' = cancel_view (schedule_retry SetWarcFileSizeInRedis r w)"])
       (simp_all add: view_on_connection_error view_complete_item split: reply.splits)
next
  case (MarkItemAsDone x)
  then show ?thesis
    by (simp add: view_on_connection_error view_complete_item split: reply.splits)
qed

lemma view_simple_process: "cancel_view (snd (simple_process e t r w)) = cancel_view w"
proof (cases t)
  case StartHeartbeat
  then show ?thesis
    by (auto simp: process_StartHeartbeat_def Let_def cancel_view_def setitem_def)
next
  case SetFetchDepth
  show ?thesis
    unfolding SetFetchDepth simple_process.simps process_SetFetchDepth_def
    by (intro view_keeps) (simp_all add: view_setitem)
next
  case PreparePaths
  show ?thesis
    unfolding PreparePaths simple_process.simps process_PreparePaths_def Let_def
    by (intro view_keeps) (simp_all add: view_setitem view_os_call view_set_target_paths)
next
  case MoveFiles
  show ?thesis
    unfolding MoveFiles simple_process.simps process_MoveFiles_def rename_attrs_def
    by (intro view_keeps) (simp_all add: view_os_call)
next
  case WriteInfo
  show ?thesis
    unfolding WriteInfo simple_process.simps process_WriteInfo_def Let_def
    by (intro view_keeps) (simp_all add: view_setitem view_os_call)
next
  case StopHeartbeat
  then show ?thesis
    by (simp add: process_StopHeartbeat_def view_delitem view_timers view_log_output
        split: option.splits pyval.splits)
qed

lemma view_send_heartbeat: "cancel_view (snd (send_heartbeat ctl r w)) = cancel_view w"
  unfolding send_heartbeat_def
  by (intro view_keeps) (simp_all split: reply.splits)

section \<open>Connection loss and retry\<close>

subsection \<open>Every call of process leaves a trace\<close>

lemma trace_setitem: "trace_size (setitem r k v w) = trace_size w"
  by (simp add: trace_size_def setitem_def)

lemma trace_log_output: "trace_size (log_output s r w) = trace_size w"
  by (simp add: trace_size_def log_output_def)

lemma trace_complete_item: "trace_size (complete_item t r w) = Suc (trace_size w)"
  by (simp add: trace_size_def complete_item_def)

lemma trace_schedule_retry: "trace_size (schedule_retry t r w) = Suc (trace_size w)"
  by (simp add: trace_size_def schedule_retry_def)

lemma trace_on_connection_error: "trace_size (snd (on_connection_error t r w)) = Suc (trace_size w)"
  by (simp add: trace_size_def on_connection_error_def schedule_retry_def
      notify_connection_error_def notify_retry_def log_output_def)

lemmas trace_keeps = on_value_keeps [where g = trace_size] and_then_keeps [where g = trace_size]

lemma trace_set_target_paths: "trace_size (snd (set_target_paths r w)) = trace_size w"
  unfolding set_target_paths_def Let_def
  by (intro trace_keeps) (simp_all add: trace_setitem)

lemma trace_relabel: "trace_size (snd (relabel r w)) = trace_size w"
  unfolding relabel_def Let_def
  by (intro trace_keeps) (simp_all add: trace_setitem trace_log_output trace_set_target_paths)

lemma on_value_returns:
  "(\<And>v. fst (f v) = None \<longrightarrow> P (snd (f v))) \<Longrightarrow>
   fst (on_value x w f) = None \<longrightarrow> P (snd (on_value x w f))"
  by (cases x) (simp_all add: on_value_def)

lemma process_leaves_trace:
  "fst (process ctl t r w) = None \<longrightarrow> trace_size (snd (process ctl t r w)) = Suc (trace_size w)"
proof (cases t)
  case (GetItemFromQueue p d)
  then show ?thesis
    by (auto simp: trace_on_connection_error trace_complete_item trace_log_output populate_def
          trace_setitem trace_schedule_retry
        split: reply.splits option.splits prod.splits)
next
  case RelabelIfAborted
  have a: "fst (and_then (relabel r w) (\<lambda>w'. (None, complete_item RelabelIfAborted r w'))) = None \<longrightarrow>
        trace_size (snd (and_then (relabel r w) (\<lambda>w'. (None, complete_item RelabelIfAborted r w')))) =
        Suc (trace_size w)"
    using trace_relabel [of r w]
    by (cases "relabel r w"; cases "fst (relabel r w)")
       (auto simp: and_then_def trace_complete_item)
  show ?thesis
    unfolding RelabelIfAborted process.simps
    by (rule on_value_returns)
       (use a in \<open>auto simp: trace_on_connection_error trace_complete_item split: reply.splits\<close>)
next
  case SetWarcFileSizeInRedis
  show ?thesis
    unfolding SetWarcFileSizeInRedis process.simps
    by (intro on_value_returns)
       (auto simp: trace_on_connection_error trace_complete_item split: reply.splits)
next
  case (MarkItemAsDone x)
  then show ?thesis
    by (auto simp: trace_on_connection_error trace_complete_item split: reply.splits)
qed

lemma process_is_observable: "process ctl t r w \<noteq> (None, w)"
proof
  assume a: "process ctl t r w = (None, w)"
  then have "fst (process ctl t r w) = None" by simp
  with process_leaves_trace [of ctl t r w]
  have "trace_size (snd (process ctl t r w)) = Suc (trace_size w)" by simp
  with a show False by simp
qed

subsection \<open>Connection loss\<close>

lemma on_connection_error_world:
  "on_connection_error t r w =
     (None, w\<lparr>items := (items w)(r := (items w r)
                 \<lparr>log_lines := log_lines (items w r) @
                    [''Lost connection to ArchiveBot controller. Retrying '' @ task_name t @
                     '' in '' @ str_int (retry_delay t) @ '' seconds.''],
                  may_be_canceled := cancelable t\<rparr>),
              timeouts := timeouts w @ [(retry_delay t, t, r)]\<rparr>)"
  by (simp add: on_connection_error_def schedule_retry_def notify_connection_error_def
      notify_retry_def log_output_def)

lemma str_5: "str_int 5 = ''5''"
  by (simp add: str_int_def str_nat.simps digit_def)

text \<open>
  C1. For every retryable stage (\<open>GetItemFromQueue\<close>, \<open>RelabelIfAborted\<close>,
  \<open>SetWarcFileSizeInRedis\<close>, \<open>MarkItemAsDone\<close>): when the control call of \<open>process\<close>
  raises the connection-lost error, \<open>process\<close> returns normally in a world that differs
  from the one before in exactly this: the retry notice, naming the reason, the stage
  and the delay, is appended to the item's log; the item's \<open>may_be_canceled\<close> is the
  stage's \<open>cancelable\<close>; and one timeout, after \<open>retry_delay\<close> seconds, for the retry of
  the same stage on the same item, is added. In particular \<open>complete_item\<close> is not called.
\<close>

theorem connection_lost_schedules_one_retry:
  "hits_connection_lost ctl t r w \<Longrightarrow>
   process ctl t r w =
     (None, w\<lparr>items := (items w)(r := (items w r)
                 \<lparr>log_lines := log_lines (items w r) @
                    [''Lost connection to ArchiveBot controller. Retrying '' @ task_name t @
                     '' in '' @ str_int (retry_delay t) @ '' seconds.''],
                  may_be_canceled := cancelable t\<rparr>),
              timeouts := timeouts w @ [(retry_delay t, t, r)]\<rparr>)"
  by (cases t)
     (auto simp: hits_connection_lost_def on_connection_error_world on_value_def getitem_def
           split: option.splits)

theorem connection_lost_schedules_one_retry_witness:
  "hits_connection_lost lost_control SetWarcFileSizeInRedis 0 (world_of held_item) \<and>
   completed (snd (process lost_control SetWarcFileSizeInRedis 0 (world_of held_item))) = [] \<and>
   timeouts (snd (process lost_control SetWarcFileSizeInRedis 0 (world_of held_item))) = [(5, SetWarcFileSizeInRedis, 0)] \<and>
   log_lines (items (snd (process lost_control SetWarcFileSizeInRedis 0 (world_of held_item))) 0) = 
     [''Lost connection to ArchiveBot controller. Retrying SetWarcFileSizeInRedis in 5 seconds.'']"
proof -
  have h: "hits_connection_lost lost_control SetWarcFileSizeInRedis 0 (world_of held_item)"
    by (simp add: hits_connection_lost_def lost_control_def world_of_def held_item_def item_of_def)
  show ?thesis
    unfolding connection_lost_schedules_one_retry [OF h]
    using h by (simp add: world_of_def held_item_def item_of_def str_5)
qed

text \<open>
  C2. When a scheduled retry fires: on an item whose \<open>canceled\<close> flag is set nothing
  happens at all (no \<open>process\<close>, no further timeout, the world is unchanged); otherwise
  \<open>may_be_canceled\<close> is set to false and \<open>process\<close> runs on the same item. An
  unchanged world does mean that \<open>process\<close> did not run: a call of \<open>process\<close> raises,
  schedules a retry or completes the item.
\<close>

theorem retry_fires_or_drops:
  "(canceled (items w r) \<longrightarrow> retry ctl t r w = (None, w)) \<and>
   (\<not> canceled (items w r) \<longrightarrow>
      retry ctl t r w =
        process ctl t r (w\<lparr>items := (items w)(r := (items w r)\<lparr>may_be_canceled := False\<rparr>)\<rparr>)) \<and>
   process ctl t r w0 \<noteq> (None, w0)"
  by (simp add: retry_def process_is_observable)

theorem retry_fires_or_drops_witness:
  "canceled (items (world_of (held_item\<lparr>canceled := True\<rparr>)) 0) \<and>
   retry lost_control SetWarcFileSizeInRedis 0 (world_of (held_item\<lparr>canceled := True\<rparr>)) =
     (None, world_of (held_item\<lparr>canceled := True\<rparr>)) \<and>
   \<not> canceled (items (world_of held_item) 0) \<and>
   timeouts (snd (retry lost_control SetWarcFileSizeInRedis 0 (world_of held_item))) =
     [(5, SetWarcFileSizeInRedis, 0)] \<and>
   \<not> may_be_canceled (items (snd (retry lost_control SetWarcFileSizeInRedis 0 (world_of held_item))) 0)"
  using retry_fires_or_drops [where w = "world_of (held_item\<lparr>canceled := True\<rparr>)" and r = 0
          and ctl = lost_control and t = SetWarcFileSizeInRedis]
        retry_fires_or_drops [where w = "world_of held_item" and r = 0
          and ctl = lost_control and t = SetWarcFileSizeInRedis]
  by (simp add: world_of_def held_item_def item_of_def lost_control_def on_value_def getitem_def
      on_connection_error_def schedule_retry_def notify_connection_error_def notify_retry_def
      log_output_def)

section \<open>The window in which an item may be canceled\<close>

lemma window_ok_view:
  "window_ok w = (case cancel_view w of (ts, m, c) \<Rightarrow>
      (\<forall>r. m r \<longrightarrow> c r \<or> (\<exists>x \<in> set ts. snd (snd x) = r \<and> cancelable (fst (snd x)))))"
  by (simp add: window_ok_def cancel_view_def reservation_pending_def)

lemma window_ok_cong: "cancel_view w' = cancel_view w \<Longrightarrow> window_ok w' = window_ok w"
  by (simp add: window_ok_view)

lemma window_ok_schedule_retry: "window_ok w \<Longrightarrow> window_ok (schedule_retry t r w)"
  by (auto simp: window_ok_def reservation_pending_def schedule_retry_def)

lemma window_ok_process:
  assumes "window_ok w"
  shows "window_ok (snd (process ctl t r w))"
proof -
  from view_process [of ctl t r w]
  have "window_ok (snd (process ctl t r w)) = window_ok w \<or>
        window_ok (snd (process ctl t r w)) = window_ok (schedule_retry t r w)"
    by (rule disj_forward) (rule window_ok_cong, assumption)+
  with assms window_ok_schedule_retry [OF assms, of t r] show ?thesis
    by blast
qed

lemma window_ok_retry:
  assumes "window_ok w"
  shows "window_ok (snd (retry ctl t r w))"
proof (cases "canceled (items w r)")
  case True
  with assms show ?thesis by (simp add: retry_def)
next
  case False
  have "window_ok (w\<lparr>items := (items w)(r := (items w r)\<lparr>may_be_canceled := False\<rparr>)\<rparr>)"
    using assms by (auto simp: window_ok_def reservation_pending_def)
  then show ?thesis
    using False by (simp add: retry_def window_ok_process)
qed

lemma set_without_nth:
  assumes n: "n < length xs" and x: "x \<in> set xs" and ne: "x \<noteq> xs ! n"
  shows "x \<in> set (take n xs @ drop (Suc n) xs)"
proof -
  have "xs = take n xs @ xs ! n # drop (Suc n) xs"
    using n by (rule id_take_nth_drop)
  then have "set xs = set (take n xs @ xs ! n # drop (Suc n) xs)"
    by simp
  then have "set xs = set (take n xs) \<union> insert (xs ! n) (set (drop (Suc n) xs))"
    by (simp only: set_append list.set)
  with x ne show ?thesis by auto
qed

lemma window_ok_fire:
  assumes ok: "window_ok w"
  shows "window_ok (snd (fire ctl n w))"
proof (cases "n < length (timeouts w)")
  case False
  with ok show ?thesis by (simp add: fire_def)
next
  case True
  obtain d t r where nth: "timeouts w ! n = (d, t, r)"
    by (cases "timeouts w ! n") auto
  let ?w = "w\<lparr>timeouts := take n (timeouts w) @ drop (Suc n) (timeouts w)\<rparr>"
  show ?thesis
  proof (cases "canceled (items w r)")
    case c: True
    have "window_ok ?w"
      unfolding window_ok_def reservation_pending_def
    proof (intro allI impI)
      fix r' assume m: "may_be_canceled (items ?w r')"
      show "canceled (items ?w r') \<or>
            (\<exists>x\<in>set (timeouts ?w). snd (snd x) = r' \<and> cancelable (fst (snd x)))"
      proof (cases "r' = r")
        case True
        with c show ?thesis by simp
      next
        case False
        from m ok have "canceled (items w r') \<or>
            (\<exists>x\<in>set (timeouts w). snd (snd x) = r' \<and> cancelable (fst (snd x)))"
          by (simp add: window_ok_def reservation_pending_def)
        then show ?thesis
        proof
          assume "canceled (items w r')" then show ?thesis by simp
        next
          assume "\<exists>x\<in>set (timeouts w). snd (snd x) = r' \<and> cancelable (fst (snd x))"
          then obtain x where x: "x \<in> set (timeouts w)" "snd (snd x) = r'" "cancelable (fst (snd x))"
            by blast
          with False nth have "x \<noteq> timeouts w ! n" by auto
          with True x(1) have "x \<in> set (take n (timeouts w) @ drop (Suc n) (timeouts w))"
            by (rule set_without_nth)
          with x show ?thesis by auto
        qed
      qed
    qed
    with c True nth show ?thesis
      by (simp add: fire_def retry_def)
  next
    case nc: False
    let ?w2 = "?w\<lparr>items := (items ?w)(r := (items ?w r)\<lparr>may_be_canceled := False\<rparr>)\<rparr>"
    have "window_ok ?w2"
      unfolding window_ok_def reservation_pending_def
    proof (intro allI impI)
      fix r' assume m: "may_be_canceled (items ?w2 r')"
      then have ne: "r' \<noteq> r" by (auto split: if_splits)
      with m have m': "may_be_canceled (items w r')" by simp
      from m' ok have "canceled (items w r') \<or>
            (\<exists>x\<in>set (timeouts w). snd (snd x) = r' \<and> cancelable (fst (snd x)))"
        by (simp add: window_ok_def reservation_pending_def)
      then show "canceled (items ?w2 r') \<or>
            (\<exists>x\<in>set (timeouts ?w2). snd (snd x) = r' \<and> cancelable (fst (snd x)))"
      proof
        assume "canceled (items w r')" with ne show ?thesis by simp
      next
        assume "\<exists>x\<in>set (timeouts w). snd (snd x) = r' \<and> cancelable (fst (snd x))"
        then obtain x where x: "x \<in> set (timeouts w)" "snd (snd x) = r'" "cancelable (fst (snd x))"
          by blast
        with ne nth have "x \<noteq> timeouts w ! n" by auto
        with True x(1) have "x \<in> set (take n (timeouts w) @ drop (Suc n) (timeouts w))"
          by (rule set_without_nth)
        with x show ?thesis by auto
      qed
    qed
    then have "window_ok (snd (process ctl t r ?w2))"
      by (rule window_ok_process)
    with nc True nth show ?thesis
      by (simp add: fire_def retry_def)
  qed
qed

lemma window_ok_cancel: "window_ok w \<Longrightarrow> window_ok (cancel r w)"
  by (auto simp: window_ok_def reservation_pending_def cancel_def)

lemma window_ok_step: "window_ok w \<Longrightarrow> window_ok (step ev w)"
  using window_ok_cong [OF view_simple_process] window_ok_cong [OF view_send_heartbeat]
  by (cases ev) (simp_all add: window_ok_process window_ok_fire window_ok_cancel)

lemma window_ok_run: "window_ok w \<Longrightarrow> window_ok (run evs w)"
  by (induction evs arbitrary: w) (simp_all add: window_ok_step)

lemma flag_process:
  assumes "\<not> may_be_canceled (items w r')" and "may_be_canceled (items (snd (process ctl t r w)) r')"
  shows "r' = r \<and> cancelable t \<and>
         timeouts (snd (process ctl t r w)) = timeouts w @ [(retry_delay t, t, r)]"
proof -
  from view_process [of ctl t r w] show ?thesis
  proof
    assume "cancel_view (snd (process ctl t r w)) = cancel_view w"
    from view_eqD(2) [OF this, of r'] assms show ?thesis by simp
  next
    assume v: "cancel_view (snd (process ctl t r w)) = cancel_view (schedule_retry t r w)"
    from view_eqD(2) [OF v, of r'] view_eqD(1) [OF v] assms show ?thesis
      by (auto simp: schedule_retry_def split: if_splits)
  qed
qed

lemma cancelable_iff: "cancelable t \<longleftrightarrow> (\<exists>p d. t = GetItemFromQueue p d)"
  by (cases t) simp_all

lemma flag_rises:
  assumes lo: "\<not> may_be_canceled (items w r)" and hi: "may_be_canceled (items (step ev w) r)"
  shows "(\<exists>ctl p d. ev = Process ctl (GetItemFromQueue p d) r \<and>
            timeouts (step ev w) = timeouts w @ [(d, GetItemFromQueue p d, r)]) \<or>
         (\<exists>ctl n p d d0. ev = Timeout ctl n \<and> n < length (timeouts w) \<and>
            timeouts w ! n = (d0, GetItemFromQueue p d, r) \<and>
            timeouts (step ev w) =
              take n (timeouts w) @ drop (Suc n) (timeouts w) @ [(d, GetItemFromQueue p d, r)])"
proof (cases ev)
  case (Process ctl t r0)
  with lo hi have "r = r0 \<and> cancelable t \<and>
      timeouts (snd (process ctl t r0 w)) = timeouts w @ [(retry_delay t, t, r0)]"
    using flag_process [of w r ctl t r0] by simp
  then show ?thesis
    using Process by (cases t) auto
next
  case (SimpleProcess e t r0)
  with view_eqD(2) [OF view_simple_process, of e t r0 w r] lo hi show ?thesis by simp
next
  case (Tick ctl r0)
  with view_eqD(2) [OF view_send_heartbeat, of ctl r0 w r] lo hi show ?thesis by simp
next
  case (CancelRequest r0)
  with lo hi show ?thesis by (auto simp: cancel_def split: if_splits)
next
  case (Timeout ctl n)
  show ?thesis
  proof (cases "n < length (timeouts w)")
    case False
    with Timeout lo hi show ?thesis by (simp add: fire_def)
  next
    case True
    obtain d0 t r0 where nth: "timeouts w ! n = (d0, t, r0)"
      by (cases "timeouts w ! n") auto
    let ?w = "w\<lparr>timeouts := take n (timeouts w) @ drop (Suc n) (timeouts w)\<rparr>"
    let ?w2 = "?w\<lparr>items := (items ?w)(r0 := (items ?w r0)\<lparr>may_be_canceled := False\<rparr>)\<rparr>"
    show ?thesis
    proof (cases "canceled (items w r0)")
      case c: True
      with Timeout True nth lo hi show ?thesis by (simp add: fire_def retry_def)
    next
      case nc: False
      with Timeout True nth have st: "step ev w = snd (process ctl t r0 ?w2)"
        by (simp add: fire_def retry_def)
      have lo2: "\<not> may_be_canceled (items ?w2 r)" using lo by simp
      from flag_process [OF lo2, of ctl t r0] hi st
      have "r = r0 \<and> cancelable t \<and>
         timeouts (step ev w) = timeouts ?w2 @ [(retry_delay t, t, r0)]"
        by simp
      then show ?thesis
        using Timeout True nth by (cases t) auto
    qed
  qed
qed

text \<open>
  C3, as the code has it. \<open>GetItemFromQueue\<close> is the only stage with \<open>cancelable\<close> true;
  scheduling a retry sets \<open>may_be_canceled\<close> to the stage's \<open>cancelable\<close>, so to false
  for every other stage; \<open>may_be_canceled\<close> goes from false to true only in a step in
  which the reservation stage, run on that item directly or by its retry firing,
  schedules a retry; and in every world reached from one where no item may be canceled,
  an item that may be canceled either has a reservation retry pending or is already
  marked canceled (a retry that fires on a canceled item is dropped and leaves the flag
  as it is).
\<close>

theorem may_be_canceled_window:
  "(cancelable t \<longleftrightarrow> (\<exists>p d. t = GetItemFromQueue p d)) \<and>
   may_be_canceled (items (schedule_retry t r w) r) = cancelable t \<and>
   (\<not> may_be_canceled (items w r) \<and> may_be_canceled (items (step ev w) r) \<longrightarrow>
      (\<exists>ctl p d. ev = Process ctl (GetItemFromQueue p d) r \<and>
            timeouts (step ev w) = timeouts w @ [(d, GetItemFromQueue p d, r)]) \<or>
      (\<exists>ctl n p d d0. ev = Timeout ctl n \<and> n < length (timeouts w) \<and>
            timeouts w ! n = (d0, GetItemFromQueue p d, r) \<and>
            timeouts (step ev w) =
              take n (timeouts w) @ drop (Suc n) (timeouts w) @ [(d, GetItemFromQueue p d, r)])) \<and>
   ((\<forall>r'. \<not> may_be_canceled (items w0 r')) \<and> may_be_canceled (items (run evs w0) r) \<longrightarrow>
      canceled (items (run evs w0) r) \<or> reservation_pending r (run evs w0))"
proof (intro conjI impI)
  show "cancelable t \<longleftrightarrow> (\<exists>p d. t = GetItemFromQueue p d)"
    by (rule cancelable_iff)
  show "may_be_canceled (items (schedule_retry t r w) r) = cancelable t"
    by (simp add: schedule_retry_def)
next
  assume "\<not> may_be_canceled (items w r) \<and> may_be_canceled (items (step ev w) r)"
  then show "(\<exists>ctl p d. ev = Process ctl (GetItemFromQueue p d) r \<and>
            timeouts (step ev w) = timeouts w @ [(d, GetItemFromQueue p d, r)]) \<or>
      (\<exists>ctl n p d d0. ev = Timeout ctl n \<and> n < length (timeouts w) \<and>
            timeouts w ! n = (d0, GetItemFromQueue p d, r) \<and>
            timeouts (step ev w) =
              take n (timeouts w) @ drop (Suc n) (timeouts w) @ [(d, GetItemFromQueue p d, r)])"
    using flag_rises [of w r ev] by blast
next
  assume a: "(\<forall>r'. \<not> may_be_canceled (items w0 r')) \<and> may_be_canceled (items (run evs w0) r)"
  then have "window_ok w0" by (simp add: window_ok_def)
  then have "window_ok (run evs w0)" by (rule window_ok_run)
  with a show "canceled (items (run evs w0) r) \<or> reservation_pending r (run evs w0)"
    by (simp add: window_ok_def)
qed

theorem may_be_canceled_window_witness:
  "\<not> cancelable RelabelIfAborted \<and>
   \<not> may_be_canceled (items (schedule_retry RelabelIfAborted 0 fresh_world) 0) \<and>
   \<not> may_be_canceled (items fresh_world 0) \<and>
   may_be_canceled (items (step (Process idle_control (GetItemFromQueue ''p1'' 5) 0) fresh_world) 0) \<and>
   timeouts (step (Process idle_control (GetItemFromQueue ''p1'' 5) 0) fresh_world) =
     [(5, GetItemFromQueue ''p1'' 5, 0)] \<and>
   (\<forall>r'. \<not> may_be_canceled (items fresh_world r')) \<and>
   may_be_canceled (items (run [Process idle_control (GetItemFromQueue ''p1'' 5) 0] fresh_world) 0) \<and>
   reservation_pending 0 (run [Process idle_control (GetItemFromQueue ''p1'' 5) 0] fresh_world)"
  using may_be_canceled_window [where t = RelabelIfAborted and r = 0 and w = fresh_world
          and ev = "Process idle_control (GetItemFromQueue ''p1'' 5) 0" and w0 = fresh_world
          and evs = "[Process idle_control (GetItemFromQueue ''p1'' 5) 0]"]
  by (simp add: fresh_world_def world_of_def item_of_def idle_control_def schedule_retry_def
      reservation_pending_def)

text \<open>
  The run that refutes C3 as stated: the reservation stage finds no job and schedules
  its retry, a cancellation request marks the item canceled, the retry fires and is
  dropped. No retry is pending any more, and \<open>may_be_canceled\<close> is still true.
\<close>

theorem may_be_canceled_window_counterexample:
  "\<not> may_be_canceled (items fresh_world 0) \<and>
   may_be_canceled
     (items (run [Process idle_control (GetItemFromQueue ''p1'' 5) 0, CancelRequest 0,
                  Timeout idle_control 0] fresh_world) 0) \<and>
   \<not> reservation_pending 0
       (run [Process idle_control (GetItemFromQueue ''p1'' 5) 0, CancelRequest 0,
             Timeout idle_control 0] fresh_world) \<and>
   timeouts (run [Process idle_control (GetItemFromQueue ''p1'' 5) 0, CancelRequest 0,
             Timeout idle_control 0] fresh_world) = []"
  by (simp add: fresh_world_def world_of_def item_of_def idle_control_def schedule_retry_def
      cancel_def fire_def retry_def reservation_pending_def)

section \<open>Job reservation\<close>

text \<open>
  C4, as the code has it. An invocation of \<open>GetItemFromQueue.process\<close> raises only when
  \<open>reserve_job\<close> raises something other than the connection-lost error. When
  \<open>reserve_job\<close> returns no ident, one retry is scheduled and the item is not completed.
  When it returns an ident and a job descriptor, \<open>fetch_depth\<close>, \<open>log_key\<close>, \<open>queued_at\<close>,
  \<open>slug\<close>, \<open>started_by\<close>, \<open>started_in\<close> and \<open>url\<close> are read from the descriptor
  (\<^verbatim>\<open>None\<close> for a key it lacks), \<open>ident\<close> is the returned ident, \<open>pipeline_id\<close> is the
  stage's own pipeline id, the receipt is logged and the item is completed.
\<close>

theorem reservation_outcomes:
  "(reserve_job ctl p = Returns (None, jd) \<longrightarrow>
      process ctl (GetItemFromQueue p d) r w =
        (None, w\<lparr>items := (items w)(r := (items w r)\<lparr>may_be_canceled := True\<rparr>),
                 timeouts := timeouts w @ [(d, GetItemFromQueue p d, r)]\<rparr>)) \<and>
   (reserve_job ctl p = Returns (Some i, jd) \<longrightarrow>
      process ctl (GetItemFromQueue p d) r w =
        (None, w\<lparr>items := (items w)(r := (items w r)
                   \<lparr>attrs := (attrs (items w r))
                      (''fetch_depth'' \<mapsto> job_get jd ''fetch_depth'',
                       ''ident'' \<mapsto> PStr i,
                       ''log_key'' \<mapsto> job_get jd ''log_key'',
                       ''pipeline_id'' \<mapsto> PStr p,
                       ''queued_at'' \<mapsto> job_get jd ''queued_at'',
                       ''slug'' \<mapsto> job_get jd ''slug'',
                       ''started_by'' \<mapsto> job_get jd ''started_by'',
                       ''started_in'' \<mapsto> job_get jd ''started_in'',
                       ''url'' \<mapsto> job_get jd ''url''),
                    log_lines := log_lines (items w r) @ [''Received item '' @ i @ ''.'']\<rparr>),
                 completed := completed w @ [(GetItemFromQueue p d, r)]\<rparr>)) \<and>
   (fst (process ctl (GetItemFromQueue p d) r w) = None \<longleftrightarrow>
      (\<forall>x. reserve_job ctl p \<noteq> Fails x))"
  by (auto simp: schedule_retry_def populate_def setitem_def log_output_def complete_item_def
        on_connection_error_def
      split: reply.splits option.splits prod.splits)

theorem reservation_outcomes_witness:
  "reserve_job idle_control ''p1'' = Returns (None, Map.empty) \<and>
   timeouts (snd (process idle_control (GetItemFromQueue ''p1'' 5) 0 fresh_world)) =
     [(5, GetItemFromQueue ''p1'' 5, 0)] \<and>
   completed (snd (process idle_control (GetItemFromQueue ''p1'' 5) 0 fresh_world)) = [] \<and>
   reserve_job serving_control ''p1'' = Returns (Some ''abc123'', scenario_job) \<and>
   completed (snd (process serving_control (GetItemFromQueue ''p1'' 5) 0 fresh_world)) =
     [(GetItemFromQueue ''p1'' 5, 0)] \<and>
   attrs (items (snd (process serving_control (GetItemFromQueue ''p1'' 5) 0 fresh_world)) 0) ''slug'' =
     Some (PStr ''example'') \<and>
   attrs (items (snd (process serving_control (GetItemFromQueue ''p1'' 5) 0 fresh_world)) 0) ''log_key'' =
     Some PNone \<and>
   log_lines (items (snd (process serving_control (GetItemFromQueue ''p1'' 5) 0 fresh_world)) 0) =
     [''Received item abc123.'']"
proof -
  have n: "reserve_job idle_control ''p1'' = Returns (None, Map.empty)"
    by (simp add: idle_control_def)
  have s: "reserve_job serving_control ''p1'' = Returns (Some ''abc123'', scenario_job)"
    by (simp add: serving_control_def)
  from n reservation_outcomes [where ctl = idle_control and p = "''p1''" and jd = Map.empty
      and d = 5 and r = 0 and w = fresh_world]
  have 1: "process idle_control (GetItemFromQueue ''p1'' 5) 0 fresh_world =
        (None, fresh_world\<lparr>items := (items fresh_world)(0 := (items fresh_world 0)\<lparr>may_be_canceled := True\<rparr>),
                 timeouts := timeouts fresh_world @ [(5, GetItemFromQueue ''p1'' 5, 0)]\<rparr>)"
    by blast
  from s reservation_outcomes [where ctl = serving_control and p = "''p1''" and jd = scenario_job
      and i = "''abc123''" and d = 5 and r = 0 and w = fresh_world]
  have 2: "process serving_control (GetItemFromQueue ''p1'' 5) 0 fresh_world =
        (None, fresh_world\<lparr>items := (items fresh_world)(0 := (items fresh_world 0)
                   \<lparr>attrs := (attrs (items fresh_world 0))
                      (''fetch_depth'' \<mapsto> job_get scenario_job ''fetch_depth'',
                       ''ident'' \<mapsto> PStr ''abc123'',
                       ''log_key'' \<mapsto> job_get scenario_job ''log_key'',
                       ''pipeline_id'' \<mapsto> PStr ''p1'',
                       ''queued_at'' \<mapsto> job_get scenario_job ''queued_at'',
                       ''slug'' \<mapsto> job_get scenario_job ''slug'',
                       ''started_by'' \<mapsto> job_get scenario_job ''started_by'',
                       ''started_in'' \<mapsto> job_get scenario_job ''started_in'',
                       ''url'' \<mapsto> job_get scenario_job ''url''),
                    log_lines := log_lines (items fresh_world 0) @ [''Received item '' @ ''abc123'' @ ''.'']\<rparr>),
                 completed := completed fresh_world @ [(GetItemFromQueue ''p1'' 5, 0)]\<rparr>)"
    by blast
  show ?thesis
    unfolding 1 2 using n s
    by (simp add: fresh_world_def world_of_def item_of_def job_get_def scenario_job_def)
qed

text \<open>
  The inputs that refute C4 as stated: the descriptor of the spec's scenario A has no
  \<open>pipeline_id\<close>, and the item's \<open>pipeline_id\<close> is the stage's, not a value from the
  descriptor; a descriptor without \<open>ident\<close> leaves the item's \<open>ident\<close> the returned one.
\<close>

theorem reservation_outcomes_counterexample:
  "scenario_job ''pipeline_id'' = None \<and>
   attrs (items (snd (process serving_control (GetItemFromQueue ''p1'' 5) 0 fresh_world)) 0)
     ''pipeline_id'' = Some (PStr ''p1'') \<and>
   attrs (items (snd (process serving_control (GetItemFromQueue ''p1'' 5) 0 fresh_world)) 0)
     ''pipeline_id'' \<noteq> Some (job_get scenario_job ''pipeline_id'') \<and>
   bare_job ''ident'' = None \<and>
   attrs (items (snd (process bare_control (GetItemFromQueue ''p1'' 5) 0 fresh_world)) 0)
     ''ident'' = Some (PStr ''abc123'') \<and>
   attrs (items (snd (process bare_control (GetItemFromQueue ''p1'' 5) 0 fresh_world)) 0)
     ''ident'' \<noteq> Some (job_get bare_job ''ident'')"
  by (simp add: scenario_job_def serving_control_def bare_job_def bare_control_def fresh_world_def
      world_of_def item_of_def populate_def setitem_def log_output_def complete_item_def job_get_def)

text \<open>
  C10. When \<open>GetItemFromQueue.process\<close> ends on a retry path (\<open>reserve_job\<close> raised the
  connection-lost error or returned no ident), it returns normally, no attribute of the
  item is written, the item is as before except for \<open>may_be_canceled\<close> and its log, the
  log is the old one with lines appended, no other item changes and the item is not
  completed.
\<close>

theorem reservation_retry_frame:
  "reserve_job ctl p = ConnectionError \<or> (\<exists>jd. reserve_job ctl p = Returns (None, jd)) \<Longrightarrow>
   fst (process ctl (GetItemFromQueue p d) r w) = None \<and>
   attrs (items (snd (process ctl (GetItemFromQueue p d) r w)) r) = attrs (items w r) \<and>
   items (snd (process ctl (GetItemFromQueue p d) r w)) r =
     (items w r)\<lparr>may_be_canceled := True,
                 log_lines := log_lines (items (snd (process ctl (GetItemFromQueue p d) r w)) r)\<rparr> \<and>
   (\<exists>extra. log_lines (items (snd (process ctl (GetItemFromQueue p d) r w)) r) =
        log_lines (items w r) @ extra) \<and>
   (\<forall>r'. r' \<noteq> r \<longrightarrow> items (snd (process ctl (GetItemFromQueue p d) r w)) r' = items w r') \<and>
   completed (snd (process ctl (GetItemFromQueue p d) r w)) = completed w"
  by (auto simp: schedule_retry_def on_connection_error_def notify_connection_error_def
        notify_retry_def log_output_def)

theorem reservation_retry_frame_witness:
  "reserve_job lost_control ''p1'' = ConnectionError \<and>
   attrs (items (snd (process lost_control (GetItemFromQueue ''p1'' 5) 0 (world_of held_item))) 0) =
     attrs held_item \<and>
   completed (snd (process lost_control (GetItemFromQueue ''p1'' 5) 0 (world_of held_item))) = []"
  using reservation_retry_frame [where ctl = lost_control and p = "''p1''" and d = 5 and r = 0
          and w = "world_of held_item"]
  by (simp add: lost_control_def world_of_def)

section \<open>Fetch depth\<close>

text \<open>
  C8. \<open>SetFetchDepth\<close> maps the fetch depth \<^verbatim>\<open>"shallow"\<close> to \<open>recursive\<close>, \<open>level\<close> and
  \<open>depth\<close> all empty, and any other fetch depth \<open>v\<close> to \<^verbatim>\<open>"--recursive"\<close>,
  \<^verbatim>\<open>"--level"\<close> and \<open>v\<close>; nothing else in the world changes.
\<close>

theorem fetch_depth_translation:
  "(attrs (items w r) ''fetch_depth'' = Some (PStr ''shallow'') \<longrightarrow>
      process_SetFetchDepth r w =
        (None, w\<lparr>items := (items w)(r := (items w r)
                   \<lparr>attrs := (attrs (items w r))
                      (''recursive'' \<mapsto> PStr [], ''level'' \<mapsto> PStr [], ''depth'' \<mapsto> PStr [])\<rparr>)\<rparr>)) \<and>
   (attrs (items w r) ''fetch_depth'' = Some v \<and> v \<noteq> PStr ''shallow'' \<longrightarrow>
      process_SetFetchDepth r w =
        (None, w\<lparr>items := (items w)(r := (items w r)
                   \<lparr>attrs := (attrs (items w r))
                      (''recursive'' \<mapsto> PStr ''--recursive'', ''level'' \<mapsto> PStr ''--level'',
                       ''depth'' \<mapsto> v)\<rparr>)\<rparr>))"
  by (simp add: process_SetFetchDepth_def on_value_def getitem_def setitem_def)

theorem fetch_depth_translation_witness:
  "attrs (items (world_of (item_of [''fetch_depth'' \<mapsto> PStr ''shallow''])) 0) ''fetch_depth'' =
     Some (PStr ''shallow'') \<and>
   attrs (items (snd (process_SetFetchDepth 0
     (world_of (item_of [''fetch_depth'' \<mapsto> PStr ''shallow''])))) 0) =
     [''fetch_depth'' \<mapsto> PStr ''shallow'', ''recursive'' \<mapsto> PStr [],
      ''level'' \<mapsto> PStr [], ''depth'' \<mapsto> PStr []] \<and>
   attrs (items (world_of (item_of [''fetch_depth'' \<mapsto> PStr ''5''])) 0) ''fetch_depth'' =
     Some (PStr ''5'') \<and> PStr ''5'' \<noteq> PStr ''shallow'' \<and>
   attrs (items (snd (process_SetFetchDepth 0
     (world_of (item_of [''fetch_depth'' \<mapsto> PStr ''5''])))) 0) =
     [''fetch_depth'' \<mapsto> PStr ''5'', ''recursive'' \<mapsto> PStr ''--recursive'',
      ''level'' \<mapsto> PStr ''--level'', ''depth'' \<mapsto> PStr ''5'']"
proof -
  have 1: "attrs (items (world_of (item_of [''fetch_depth'' \<mapsto> PStr ''shallow''])) 0) ''fetch_depth'' =
     Some (PStr ''shallow'')"
    by (simp add: world_of_def item_of_def)
  have 2: "attrs (items (world_of (item_of [''fetch_depth'' \<mapsto> PStr ''5''])) 0) ''fetch_depth'' =
     Some (PStr ''5'') \<and> PStr ''5'' \<noteq> PStr ''shallow''"
    by (simp add: world_of_def item_of_def)
  note a = fetch_depth_translation [where w = "world_of (item_of [''fetch_depth'' \<mapsto> PStr ''shallow''])"
          and r = 0 and v = "PStr ''5''", THEN conjunct1, rule_format, OF 1]
  note b = fetch_depth_translation [where w = "world_of (item_of [''fetch_depth'' \<mapsto> PStr ''5''])"
          and r = 0 and v = "PStr ''5''", THEN conjunct2, rule_format, OF 2]
  show ?thesis
    unfolding a b using 1 2 by (simp add: world_of_def item_of_def)
qed

section \<open>Stopping the heartbeat\<close>

text \<open>
  C9. \<open>StopHeartbeat.process\<close> does not raise on a missing handle: with no \<open>heartbeat\<close>
  attribute it appends a warning to the item's log and returns normally; with a timer
  handle it stops that timer, removes the attribute and returns normally.
\<close>

theorem stop_heartbeat_never_raises:
  "(attrs (items w r) ''heartbeat'' = None \<longrightarrow>
      process_StopHeartbeat r w =
        (None, w\<lparr>items := (items w)(r := (items w r)
                   \<lparr>log_lines := log_lines (items w r) @
                      [''Warning: couldn't find a heartbeat to stop'']\<rparr>)\<rparr>)) \<and>
   (attrs (items w r) ''heartbeat'' = Some (PTimer cb) \<longrightarrow>
      process_StopHeartbeat r w =
        (None, w\<lparr>items := (items w)(r := (items w r)
                   \<lparr>attrs := (attrs (items w r))(''heartbeat'' := None)\<rparr>),
                 timers := (timers w)(cb := (timers w cb)\<lparr>running := False\<rparr>)\<rparr>))"
  by (simp add: process_StopHeartbeat_def log_output_def delitem_def)

theorem stop_heartbeat_never_raises_witness:
  "attrs (items fresh_world 0) ''heartbeat'' = None \<and>
   fst (process_StopHeartbeat 0 fresh_world) = None \<and>
   log_lines (items (snd (process_StopHeartbeat 0 fresh_world)) 0) =
     [''Warning: couldn't find a heartbeat to stop''] \<and>
   attrs (items (snd (process_StartHeartbeat 0 fresh_world)) 0) ''heartbeat'' = Some (PTimer 0) \<and>
   fst (process_StopHeartbeat 0 (snd (process_StartHeartbeat 0 fresh_world))) = None \<and>
   attrs (items (snd (process_StopHeartbeat 0 (snd (process_StartHeartbeat 0 fresh_world)))) 0)
     ''heartbeat'' = None \<and>
   \<not> running (timers (snd (process_StopHeartbeat 0 (snd (process_StartHeartbeat 0 fresh_world)))) 0)"
  using stop_heartbeat_never_raises [where w = fresh_world and r = 0]
        stop_heartbeat_never_raises [where w = "snd (process_StartHeartbeat 0 fresh_world)"
          and r = 0 and cb = 0]
  by (simp add: fresh_world_def world_of_def item_of_def process_StartHeartbeat_def setitem_def
      Let_def)

section \<open>Paths\<close>

subsection \<open>Reading the item back after a write\<close>

lemma getitem_some: "attrs (items w r) k = Some v \<Longrightarrow> getitem r k w = Inr v"
  by (simp add: getitem_def)

lemma getitem_setitem_other: "k \<noteq> k' \<Longrightarrow> getitem r k (setitem r' k' v w) = getitem r k w"
  by (simp add: getitem_def setitem_def)

lemma getitem_setitem_same: "getitem r k (setitem r k v w) = Inr v"
  by (simp add: getitem_def setitem_def)

lemma getitem_fs_calls: "getitem r k (w\<lparr>fs_calls := x\<rparr>) = getitem r k w"
  by (simp add: getitem_def)

lemma fmt_str: "attrs (items w r) k = Some (PStr s) \<Longrightarrow> fmt r k w = Inr s"
  by (simp add: fmt_def getitem_def)

lemma fmt_setitem_other:
  "k \<noteq> k' \<Longrightarrow> fmt r k (setitem r' k' v w) = fmt r k w"
  by (simp add: fmt_def getitem_def setitem_def)

lemma fmt_setitem_same:
  "fmt r k (setitem r k (PStr s) w) = Inr s"
  by (simp add: fmt_def getitem_def setitem_def)

lemma fmt_fs_calls: "fmt r k (w\<lparr>fs_calls := x\<rparr>) = fmt r k w"
  by (simp add: fmt_def getitem_def)

lemma os_call_ok: "\<not> os_fails e c \<Longrightarrow> os_call e c w = (None, w\<lparr>fs_calls := fs_calls w @ [c]\<rparr>)"
  by (simp add: os_call_def)

lemma set_target_paths_world:
  assumes "fmt r ''data_dir'' w = Inr d" and "fmt r ''warc_file_base'' w = Inr b"
  shows "set_target_paths r w =
     (None, setitem r ''target_info_file'' (PStr (d @ ''/'' @ b @ ''.json''))
              (setitem r ''target_warc_file'' (PStr (d @ ''/'' @ b @ ''.warc.gz'')) w))"
  using assms by (simp add: set_target_paths_def on_value_def Let_def fmt_setitem_other)

subsection \<open>The timestamp\<close>

lemma digit_in: "digit n \<in> set ''0123456789''"
proof -
  have "n mod 10 < length ''0123456789''" by simp
  then show ?thesis unfolding digit_def by (rule nth_mem)
qed

lemma str_nat_digits: "set (str_nat n) \<subseteq> set ''0123456789''"
proof (induction n rule: str_nat.induct)
  case (1 n)
  show ?case
  proof (cases "n < 10")
    case True
    then have "str_nat n = [digit n]" by (simp add: str_nat.simps)
    with digit_in [of n] show ?thesis by simp
  next
    case False
    then have "str_nat n = str_nat (n div 10) @ [digit n]" by (simp add: str_nat.simps)
    with 1 False digit_in [of n] show ?thesis by simp
  qed
qed

lemma str_nat_length1: "n < 10 \<Longrightarrow> length (str_nat n) = 1"
  by (simp add: str_nat.simps)

lemma str_nat_length2: "10 \<le> n \<Longrightarrow> n < 100 \<Longrightarrow> length (str_nat n) = 2"
  by (subst str_nat.simps) (simp add: str_nat_length1)

lemma str_nat_length3: "100 \<le> n \<Longrightarrow> n < 1000 \<Longrightarrow> length (str_nat n) = 3"
  by (subst str_nat.simps) (simp add: str_nat_length2)

lemma str_nat_length4: "1000 \<le> n \<Longrightarrow> n < 10000 \<Longrightarrow> length (str_nat n) = 4"
  by (subst str_nat.simps) (simp add: str_nat_length3)

lemma pad2_length: "n < 100 \<Longrightarrow> length (pad2 n) = 2"
  by (cases "n < 10") (simp_all add: pad2_def str_nat_length1 str_nat_length2)

lemma pad2_digits: "set (pad2 n) \<subseteq> set ''0123456789''"
  using str_nat_digits [of n] by (auto simp: pad2_def)

lemma strftime_format:
  "strftime ''%Y%m%d-%H%M%S'' tm =
     str_nat (tm_year tm) @ pad2 (tm_mon tm) @ pad2 (tm_mday tm) @ ''-'' @
     pad2 (tm_hour tm) @ pad2 (tm_min tm) @ pad2 (tm_sec tm)"
  apply simp
  apply (simp add: directive_def)
  done

lemma timestamp_shape:
  assumes "1000 \<le> tm_year tm" "tm_year tm < 10000" "tm_mon tm < 100" "tm_mday tm < 100"
    "tm_hour tm < 100" "tm_min tm < 100" "tm_sec tm < 100"
  shows "\<exists>a b. strftime ''%Y%m%d-%H%M%S'' tm = a @ ''-'' @ b \<and> length a = 8 \<and> length b = 6 \<and>
           set (a @ b) \<subseteq> set ''0123456789''"
proof (intro exI conjI)
  let ?a = "str_nat (tm_year tm) @ pad2 (tm_mon tm) @ pad2 (tm_mday tm)"
  let ?b = "pad2 (tm_hour tm) @ pad2 (tm_min tm) @ pad2 (tm_sec tm)"
  show "strftime ''%Y%m%d-%H%M%S'' tm = ?a @ ''-'' @ ?b"
    unfolding strftime_format by simp
  show "length ?a = 8" using assms by (simp add: str_nat_length4 pad2_length)
  show "length ?b = 6" using assms by (simp add: pad2_length)
  show "set (?a @ ?b) \<subseteq> set ''0123456789''"
    using str_nat_digits [of "tm_year tm"] pad2_digits [of "tm_mon tm"] pad2_digits [of "tm_mday tm"]
      pad2_digits [of "tm_hour tm"] pad2_digits [of "tm_min tm"] pad2_digits [of "tm_sec tm"]
    by (simp only: set_append Un_subset_iff)
qed

lemma plain_timestamp: "strftime ''%Y%m%d-%H%M%S'' (localtime plain_env) = ''20140309-070503''"
  unfolding strftime_format
  by (simp add: plain_env_def pad2_def str_nat.simps digit_def)

subsection \<open>PreparePaths\<close>

lemma prepare_paths_attrs:
  assumes dd: "attrs (items w r) ''data_dir'' = Some (PStr d)"
    and id: "attrs (items w r) ''ident'' = Some (PStr i)"
    and sl: "attrs (items w r) ''slug'' = Some (PStr s)"
    and rm: "\<not> os_fails e (Rmtree (d @ ''/'' @ i))"
    and mk: "\<not> os_fails e (Makedirs (d @ ''/'' @ i))"
  shows "fst (process_PreparePaths e r w) = None \<and>
    attrs (items (snd (process_PreparePaths e r w)) r) =
      (attrs (items w r))
        (''item_dir'' \<mapsto> PStr (d @ ''/'' @ i),
         ''warc_file_base'' \<mapsto>
            PStr (s @ ''-'' @ strftime ''%Y%m%d-%H%M%S'' (localtime e) @ ''-'' @ take 5 i),
         ''source_warc_file'' \<mapsto>
            PStr ((d @ ''/'' @ i) @ ''/'' @
                  (s @ ''-'' @ strftime ''%Y%m%d-%H%M%S'' (localtime e) @ ''-'' @ take 5 i) @ ''.warc.gz''),
         ''source_info_file'' \<mapsto>
            PStr ((d @ ''/'' @ i) @ ''/'' @
                  (s @ ''-'' @ strftime ''%Y%m%d-%H%M%S'' (localtime e) @ ''-'' @ take 5 i) @ ''.json''),
         ''cookie_jar'' \<mapsto> PStr ((d @ ''/'' @ i) @ ''/cookies.txt''),
         ''target_warc_file'' \<mapsto>
            PStr (d @ ''/'' @
                  (s @ ''-'' @ strftime ''%Y%m%d-%H%M%S'' (localtime e) @ ''-'' @ take 5 i) @ ''.warc.gz''),
         ''target_info_file'' \<mapsto>
            PStr (d @ ''/'' @
                  (s @ ''-'' @ strftime ''%Y%m%d-%H%M%S'' (localtime e) @ ''-'' @ take 5 i) @ ''.json''))"
proof -
  let ?ts = "strftime ''%Y%m%d-%H%M%S'' (localtime e)"
  let ?dir = "d @ ''/'' @ i"
  let ?base = "s @ ''-'' @ ?ts @ ''-'' @ take 5 i"
  let ?w2 = "w\<lparr>fs_calls := fs_calls w @
     (if isdir e ?dir then [Rmtree ?dir] else []) @ [Makedirs ?dir]\<rparr>"
  let ?w3 = "setitem r ''item_dir'' (PStr ?dir) ?w2"
  let ?w4 = "setitem r ''warc_file_base'' (PStr ?base) ?w3"
  let ?w5 = "setitem r ''source_warc_file'' (PStr (?dir @ ''/'' @ ?base @ ''.warc.gz'')) ?w4"
  let ?w6 = "setitem r ''source_info_file'' (PStr (?dir @ ''/'' @ ?base @ ''.json'')) ?w5"
  let ?w7 = "setitem r ''cookie_jar'' (PStr (?dir @ ''/cookies.txt'')) ?w6"
  have fs: "and_then (if isdir e ?dir then os_call e (Rmtree ?dir) w else (None, w))
              (\<lambda>w1. and_then (os_call e (Makedirs ?dir) w1) f) = f ?w2" for f
    using rm mk by (simp add: os_call_ok and_then_def)
  have d7: "fmt r ''data_dir'' ?w7 = Inr d"
    using dd by (simp add: fmt_setitem_other fmt_fs_calls fmt_str)
  have b7: "fmt r ''warc_file_base'' ?w7 = Inr ?base"
    by (simp add: fmt_setitem_other fmt_setitem_same)
  note t = set_target_paths_world [OF d7 b7]
  have p: "process_PreparePaths e r w =
     (None, setitem r ''target_info_file'' (PStr (d @ ''/'' @ ?base @ ''.json''))
              (setitem r ''target_warc_file'' (PStr (d @ ''/'' @ ?base @ ''.warc.gz'')) ?w7))"
    unfolding process_PreparePaths_def Let_def
    apply (simp only: fmt_str [OF dd] fmt_str [OF id] getitem_some [OF id] on_value_def sum.case
        first_five.simps fs)
    apply (simp only: getitem_setitem_other getitem_fs_calls getitem_some [OF sl] sum.case
        py_str.simps fmt_setitem_other fmt_setitem_same t [unfolded Let_def]
        list.inject char.inject simp_thms)
    done
  show ?thesis
    unfolding p by (simp add: setitem_def)
qed

text \<open>
  C6. For an item whose \<open>data_dir\<close>, \<open>ident\<close> and \<open>slug\<close> are strings, and when removing
  and creating the working directory succeed, \<open>PreparePaths.process\<close> returns normally
  and sets exactly these attributes: \<open>item_dir\<close> is \<^verbatim>\<open><data_dir>/<ident>\<close>;
  \<open>warc_file_base\<close> is \<^verbatim>\<open><slug>-<timestamp>-<first 5 characters of ident>\<close>;
  \<open>source_warc_file\<close>, \<open>source_info_file\<close> and \<open>cookie_jar\<close> are the base with
  \<^verbatim>\<open>.warc.gz\<close>, the base with \<^verbatim>\<open>.json\<close> and \<^verbatim>\<open>cookies.txt\<close> under the working
  directory; \<open>target_warc_file\<close> and \<open>target_info_file\<close> are the base with
  \<^verbatim>\<open>.warc.gz\<close> and \<^verbatim>\<open>.json\<close> under \<open>data_dir\<close>. The timestamp is the year, then
  month, day, a dash, hour, minute and second in two digits each; for a year of four
  digits it is eight digits, a dash and six digits.
\<close>

theorem prepare_paths_layout:
  assumes dd: "attrs (items w r) ''data_dir'' = Some (PStr d)"
    and id: "attrs (items w r) ''ident'' = Some (PStr i)"
    and sl: "attrs (items w r) ''slug'' = Some (PStr s)"
    and rm: "\<not> os_fails e (Rmtree (d @ ''/'' @ i))"
    and mk: "\<not> os_fails e (Makedirs (d @ ''/'' @ i))"
  shows "fst (process_PreparePaths e r w) = None \<and>
    attrs (items (snd (process_PreparePaths e r w)) r) =
      (attrs (items w r))
        (''item_dir'' \<mapsto> PStr (d @ ''/'' @ i),
         ''warc_file_base'' \<mapsto>
            PStr (s @ ''-'' @ strftime ''%Y%m%d-%H%M%S'' (localtime e) @ ''-'' @ take 5 i),
         ''source_warc_file'' \<mapsto>
            PStr ((d @ ''/'' @ i) @ ''/'' @
                  (s @ ''-'' @ strftime ''%Y%m%d-%H%M%S'' (localtime e) @ ''-'' @ take 5 i) @ ''.warc.gz''),
         ''source_info_file'' \<mapsto>
            PStr ((d @ ''/'' @ i) @ ''/'' @
                  (s @ ''-'' @ strftime ''%Y%m%d-%H%M%S'' (localtime e) @ ''-'' @ take 5 i) @ ''.json''),
         ''cookie_jar'' \<mapsto> PStr ((d @ ''/'' @ i) @ ''/cookies.txt''),
         ''target_warc_file'' \<mapsto>
            PStr (d @ ''/'' @
                  (s @ ''-'' @ strftime ''%Y%m%d-%H%M%S'' (localtime e) @ ''-'' @ take 5 i) @ ''.warc.gz''),
         ''target_info_file'' \<mapsto>
            PStr (d @ ''/'' @
                  (s @ ''-'' @ strftime ''%Y%m%d-%H%M%S'' (localtime e) @ ''-'' @ take 5 i) @ ''.json'')) \<and>
    strftime ''%Y%m%d-%H%M%S'' (localtime e) =
      str_nat (tm_year (localtime e)) @ pad2 (tm_mon (localtime e)) @ pad2 (tm_mday (localtime e)) @
      ''-'' @ pad2 (tm_hour (localtime e)) @ pad2 (tm_min (localtime e)) @ pad2 (tm_sec (localtime e)) \<and>
    (1000 \<le> tm_year (localtime e) \<and> tm_year (localtime e) < 10000 \<and>
     tm_mon (localtime e) < 100 \<and> tm_mday (localtime e) < 100 \<and> tm_hour (localtime e) < 100 \<and>
     tm_min (localtime e) < 100 \<and> tm_sec (localtime e) < 100 \<longrightarrow>
       (\<exists>a b. strftime ''%Y%m%d-%H%M%S'' (localtime e) = a @ ''-'' @ b \<and>
              length a = 8 \<and> length b = 6 \<and> set (a @ b) \<subseteq> set ''0123456789''))"
  using prepare_paths_attrs [OF assms] strftime_format [of "localtime e"]
    timestamp_shape [of "localtime e"]
  by blast

theorem prepare_paths_layout_witness:
  "attrs (items (world_of held_item) 0) ''data_dir'' = Some (PStr ''/data'') \<and>
   attrs (items (world_of held_item) 0) ''ident'' = Some (PStr ''abc123'') \<and>
   attrs (items (world_of held_item) 0) ''slug'' = Some (PStr ''example'') \<and>
   \<not> os_fails plain_env (Rmtree (''/data'' @ ''/'' @ ''abc123'')) \<and>
   \<not> os_fails plain_env (Makedirs (''/data'' @ ''/'' @ ''abc123'')) \<and>
   attrs (items (snd (process_PreparePaths plain_env 0 (world_of held_item))) 0) ''item_dir'' =
     Some (PStr ''/data/abc123'') \<and>
   attrs (items (snd (process_PreparePaths plain_env 0 (world_of held_item))) 0) ''warc_file_base'' =
     Some (PStr ''example-20140309-070503-abc12'') \<and>
   attrs (items (snd (process_PreparePaths plain_env 0 (world_of held_item))) 0) ''source_warc_file'' =
     Some (PStr ''/data/abc123/example-20140309-070503-abc12.warc.gz'') \<and>
   attrs (items (snd (process_PreparePaths plain_env 0 (world_of held_item))) 0) ''source_info_file'' =
     Some (PStr ''/data/abc123/example-20140309-070503-abc12.json'') \<and>
   attrs (items (snd (process_PreparePaths plain_env 0 (world_of held_item))) 0) ''cookie_jar'' =
     Some (PStr ''/data/abc123/cookies.txt'') \<and>
   attrs (items (snd (process_PreparePaths plain_env 0 (world_of held_item))) 0) ''target_warc_file'' =
     Some (PStr ''/data/example-20140309-070503-abc12.warc.gz'') \<and>
   attrs (items (snd (process_PreparePaths plain_env 0 (world_of held_item))) 0) ''target_info_file'' =
     Some (PStr ''/data/example-20140309-070503-abc12.json'')"
proof -
  have 1: "attrs (items (world_of held_item) 0) ''data_dir'' = Some (PStr ''/data'')"
    and 2: "attrs (items (world_of held_item) 0) ''ident'' = Some (PStr ''abc123'')"
    and 3: "attrs (items (world_of held_item) 0) ''slug'' = Some (PStr ''example'')"
    by (simp_all add: world_of_def held_item_def item_of_def)
  have 4: "\<not> os_fails plain_env (Rmtree (''/data'' @ ''/'' @ ''abc123''))"
    and 5: "\<not> os_fails plain_env (Makedirs (''/data'' @ ''/'' @ ''abc123''))"
    by (simp_all add: plain_env_def)
  note t = prepare_paths_layout [OF 1 2 3 4 5, THEN conjunct2, THEN conjunct1]
  show ?thesis
    unfolding t plain_timestamp using 1 2 3 4 5 by simp
qed

subsection \<open>RelabelIfAborted\<close>

lemma relabel_world:
  assumes "attrs (items w r) ''ident'' = Some i"
    and "is_aborted ctl i = Returns True"
    and "fmt r ''warc_file_base'' w = Inr b"
    and "fmt r ''data_dir'' w = Inr d"
  shows "process ctl RelabelIfAborted r w =
     (None, w\<lparr>items := (items w)(r := (items w r)
               \<lparr>attrs := (attrs (items w r))
                  (''aborted'' \<mapsto> PBool True,
                   ''warc_file_base'' \<mapsto> PStr (b @ ''-aborted''),
                   ''target_warc_file'' \<mapsto> PStr (d @ ''/'' @ b @ ''-aborted'' @ ''.warc.gz''),
                   ''target_info_file'' \<mapsto> PStr (d @ ''/'' @ b @ ''-aborted'' @ ''.json'')),
                log_lines := log_lines (items w r) @
                  [''Adjusted target WARC path to '' @ d @ ''/'' @ b @ ''-aborted'' @ ''.warc.gz'']\<rparr>),
              completed := completed w @ [(RelabelIfAborted, r)]\<rparr>)"
proof -
  let ?w1 = "setitem r ''aborted'' (PBool True) w"
  let ?w2 = "setitem r ''warc_file_base'' (PStr (b @ ''-aborted'')) ?w1"
  have b1: "fmt r ''warc_file_base'' ?w1 = Inr b"
    using assms(3) by (simp add: fmt_setitem_other)
  have d2: "fmt r ''data_dir'' ?w2 = Inr d"
    using assms(4) by (simp add: fmt_setitem_other)
  have b2: "fmt r ''warc_file_base'' ?w2 = Inr (b @ ''-aborted'')"
    by (rule fmt_setitem_same)
  note t = set_target_paths_world [OF d2 b2]
  have r: "relabel r w =
     (None, log_output (''Adjusted target WARC path to '' @ d @ ''/'' @ (b @ ''-aborted'') @ ''.warc.gz'') r
        (setitem r ''target_info_file'' (PStr (d @ ''/'' @ (b @ ''-aborted'') @ ''.json''))
              (setitem r ''target_warc_file'' (PStr (d @ ''/'' @ (b @ ''-aborted'') @ ''.warc.gz'')) ?w2)))"
    unfolding relabel_def Let_def
    by (simp only: b1 on_value_def sum.case t and_then_def prod.case option.case
        fmt_setitem_other fmt_setitem_same)
       (simp add: fmt_setitem_other fmt_setitem_same)
  show ?thesis
    using assms(1,2)
    by (simp add: on_value_def getitem_def r and_then_def)
       (simp add: setitem_def log_output_def complete_item_def)
qed

text \<open>
  C5. When \<open>is_aborted\<close> returns true for the item's \<open>ident\<close> (and \<open>warc_file_base\<close> and
  \<open>data_dir\<close> can be formatted), \<open>RelabelIfAborted.process\<close> returns normally, sets
  \<open>aborted\<close>, appends \<^verbatim>\<open>-aborted\<close> to \<open>warc_file_base\<close>, recomputes \<open>target_warc_file\<close>
  and \<open>target_info_file\<close> from it, logs the adjusted path and completes the item;
  \<open>source_warc_file\<close>, \<open>source_info_file\<close> and every attribute other than those four
  are as before, and so is every other item.
\<close>

theorem relabel_frame_attrs:
  assumes "attrs (items w r) ''ident'' = Some i"
    and "is_aborted ctl i = Returns True"
    and "fmt r ''warc_file_base'' w = Inr b"
    and "fmt r ''data_dir'' w = Inr d"
  shows "process ctl RelabelIfAborted r w =
     (None, w\<lparr>items := (items w)(r := (items w r)
               \<lparr>attrs := (attrs (items w r))
                  (''aborted'' \<mapsto> PBool True,
                   ''warc_file_base'' \<mapsto> PStr (b @ ''-aborted''),
                   ''target_warc_file'' \<mapsto> PStr (d @ ''/'' @ b @ ''-aborted'' @ ''.warc.gz''),
                   ''target_info_file'' \<mapsto> PStr (d @ ''/'' @ b @ ''-aborted'' @ ''.json'')),
                log_lines := log_lines (items w r) @
                  [''Adjusted target WARC path to '' @ d @ ''/'' @ b @ ''-aborted'' @ ''.warc.gz'']\<rparr>),
              completed := completed w @ [(RelabelIfAborted, r)]\<rparr>) \<and>
    attrs (items (snd (process ctl RelabelIfAborted r w)) r) ''source_warc_file'' =
      attrs (items w r) ''source_warc_file'' \<and>
    attrs (items (snd (process ctl RelabelIfAborted r w)) r) ''source_info_file'' =
      attrs (items w r) ''source_info_file'' \<and>
    (\<forall>k. k \<notin> {''aborted'', ''warc_file_base'', ''target_warc_file'', ''target_info_file''} \<longrightarrow>
       attrs (items (snd (process ctl RelabelIfAborted r w)) r) k = attrs (items w r) k) \<and>
    (\<forall>r'. r' \<noteq> r \<longrightarrow> items (snd (process ctl RelabelIfAborted r w)) r' = items w r')"
  unfolding relabel_world [OF assms] by simp

theorem relabel_frame_attrs_witness:
  "attrs (items (world_of held_item) 0) ''ident'' = Some (PStr ''abc123'') \<and>
   is_aborted serving_control (PStr ''abc123'') = Returns True \<and>
   fmt 0 ''warc_file_base'' (world_of held_item) = Inr ''example-20140309-070503-abc12'' \<and>
   fmt 0 ''data_dir'' (world_of held_item) = Inr ''/data'' \<and>
   attrs (items (snd (process serving_control RelabelIfAborted 0 (world_of held_item))) 0)
     ''target_warc_file'' = Some (PStr ''/data/example-20140309-070503-abc12-aborted.warc.gz'') \<and>
   attrs (items (snd (process serving_control RelabelIfAborted 0 (world_of held_item))) 0)
     ''target_info_file'' = Some (PStr ''/data/example-20140309-070503-abc12-aborted.json'') \<and>
   attrs (items (snd (process serving_control RelabelIfAborted 0 (world_of held_item))) 0)
     ''source_info_file'' = Some (PStr ''/data/abc123/example-20140309-070503-abc12.json'') \<and>
   attrs (items (snd (process serving_control RelabelIfAborted 0 (world_of held_item))) 0)
     ''aborted'' = Some (PBool True)"
proof -
  have 1: "attrs (items (world_of held_item) 0) ''ident'' = Some (PStr ''abc123'')"
    by (simp add: world_of_def held_item_def item_of_def)
  have 2: "is_aborted serving_control (PStr ''abc123'') = Returns True"
    by (simp add: serving_control_def)
  have 3: "fmt 0 ''warc_file_base'' (world_of held_item) = Inr ''example-20140309-070503-abc12''"
    by (simp add: fmt_def getitem_def world_of_def held_item_def item_of_def)
  have 4: "fmt 0 ''data_dir'' (world_of held_item) = Inr ''/data''"
    by (simp add: fmt_def getitem_def world_of_def held_item_def item_of_def)
  note t = relabel_frame_attrs [OF 1 2 3 4, THEN conjunct1]
  show ?thesis
    unfolding t using 1 2 3 4 by (simp add: world_of_def held_item_def item_of_def)
qed

section \<open>The metadata record\<close>

text \<open>
  C7. For an item that has \<open>fetch_depth\<close>, \<open>pipeline_id\<close>, \<open>queued_at\<close>, \<open>started_by\<close>,
  \<open>started_in\<close>, \<open>url\<close> and a string \<open>source_info_file\<close>, with values that serialise
  and a file that can be opened and written, \<open>WriteInfo.process\<close> returns normally,
  stores the record as \<open>info\<close> and writes it as indented JSON to \<open>source_info_file\<close>.
  The record has exactly the seven keys \<open>aborted\<close>, \<open>fetch_depth\<close>, \<open>pipeline_id\<close>,
  \<open>queued_at\<close>, \<open>started_by\<close>, \<open>started_in\<close>, \<open>url\<close>, and \<open>aborted\<close> is false when
  the item has no \<open>aborted\<close> attribute.
\<close>

theorem write_info_record:
  assumes fd: "attrs (items w r) ''fetch_depth'' = Some fetch_depth"
    and pi: "attrs (items w r) ''pipeline_id'' = Some pipeline_id"
    and qa: "attrs (items w r) ''queued_at'' = Some queued_at"
    and sb: "attrs (items w r) ''started_by'' = Some started_by"
    and si: "attrs (items w r) ''started_in'' = Some started_in"
    and ur: "attrs (items w r) ''url'' = Some url"
    and sf: "attrs (items w r) ''source_info_file'' = Some (PStr p)"
    and ab: "aborted = (case attrs (items w r) ''aborted'' of None \<Rightarrow> PBool False | Some v \<Rightarrow> v)"
    and info: "info = [(''aborted'', aborted), (''fetch_depth'', fetch_depth),
                       (''pipeline_id'', pipeline_id), (''queued_at'', queued_at),
                       (''started_by'', started_by), (''started_in'', started_in),
                       (''url'', url)]"
    and js: "serialisable (PDict info)"
    and op: "\<not> os_fails e (OpenW p)"
    and wr: "\<not> os_fails e (WriteJson p (PDict info))"
  shows "process_WriteInfo e r w =
      (None, w\<lparr>items := (items w)(r := (items w r)
                 \<lparr>attrs := (attrs (items w r))(''info'' \<mapsto> PDict info)\<rparr>),
               fs_calls := fs_calls w @ [OpenW p, WriteJson p (PDict info)]\<rparr>) \<and>
    map fst info = [''aborted'', ''fetch_depth'', ''pipeline_id'', ''queued_at'',
                    ''started_by'', ''started_in'', ''url''] \<and>
    (''aborted'' \<notin> dom (attrs (items w r)) \<longrightarrow> map_of info ''aborted'' = Some (PBool False))"
proof -
  have a: "(if ''aborted'' \<in> dom (attrs (items w r)) then getitem r ''aborted'' w
               else Inr (PBool False)) = Inr aborted"
    by (auto simp: ab getitem_def split: option.splits)
  let ?w1 = "setitem r ''info'' (PDict info) w"
  let ?w2 = "?w1\<lparr>fs_calls := fs_calls ?w1 @ [OpenW p]\<rparr>"
  have s1: "getitem r ''source_info_file'' ?w1 = Inr (PStr p)"
    using sf by (simp add: getitem_setitem_other getitem_some)
  have i2: "getitem r ''info'' ?w2 = Inr (PDict info)"
    by (simp add: getitem_fs_calls getitem_setitem_same)
  have p: "process_WriteInfo e r w =
      (None, ?w2\<lparr>fs_calls := fs_calls ?w2 @ [WriteJson p (PDict info)]\<rparr>)"
    unfolding process_WriteInfo_def Let_def
    apply (simp only: a getitem_some [OF fd] getitem_some [OF pi] getitem_some [OF qa]
        getitem_some [OF sb] getitem_some [OF si] getitem_some [OF ur] on_value_def sum.case
        info [symmetric] s1 as_path.simps os_call_ok [OF op] and_then_def prod.case option.case
        i2 js if_True os_call_ok [OF wr])
    done
  show ?thesis
    unfolding p by (auto simp: setitem_def info ab split: option.splits)
qed

theorem write_info_record_witness:
  "process_WriteInfo plain_env 0 (world_of held_item) =
     (None, (world_of held_item)\<lparr>items := (items (world_of held_item))(0 := (items (world_of held_item) 0)
                 \<lparr>attrs := (attrs (items (world_of held_item) 0))(''info'' \<mapsto>
                    PDict [(''aborted'', PBool False), (''fetch_depth'', PStr ''5''),
                       (''pipeline_id'', PStr ''p1''), (''queued_at'', PStr ''1394348703''),
                       (''started_by'', PStr ''alice''), (''started_in'', PStr ''#chan''),
                       (''url'', PStr ''http://x'')])\<rparr>),
               fs_calls := fs_calls (world_of held_item) @
                 [OpenW ''/data/abc123/example-20140309-070503-abc12.json'',
                  WriteJson ''/data/abc123/example-20140309-070503-abc12.json''
                    (PDict [(''aborted'', PBool False), (''fetch_depth'', PStr ''5''),
                       (''pipeline_id'', PStr ''p1''), (''queued_at'', PStr ''1394348703''),
                       (''started_by'', PStr ''alice''), (''started_in'', PStr ''#chan''),
                       (''url'', PStr ''http://x'')])]\<rparr>) \<and>
   ''aborted'' \<notin> dom (attrs (items (world_of held_item) 0))"
proof -
  have n: "''aborted'' \<notin> dom (attrs (items (world_of held_item) 0))"
    by (simp add: world_of_def held_item_def item_of_def)
  have w: "process_WriteInfo plain_env 0 (world_of held_item) =
     (None, (world_of held_item)\<lparr>items := (items (world_of held_item))(0 := (items (world_of held_item) 0)
                 \<lparr>attrs := (attrs (items (world_of held_item) 0))(''info'' \<mapsto>
                    PDict [(''aborted'', PBool False), (''fetch_depth'', PStr ''5''),
                       (''pipeline_id'', PStr ''p1''), (''queued_at'', PStr ''1394348703''),
                       (''started_by'', PStr ''alice''), (''started_in'', PStr ''#chan''),
                       (''url'', PStr ''http://x'')])\<rparr>),
               fs_calls := fs_calls (world_of held_item) @
                 [OpenW ''/data/abc123/example-20140309-070503-abc12.json'',
                  WriteJson ''/data/abc123/example-20140309-070503-abc12.json''
                    (PDict [(''aborted'', PBool False), (''fetch_depth'', PStr ''5''),
                       (''pipeline_id'', PStr ''p1''), (''queued_at'', PStr ''1394348703''),
                       (''started_by'', PStr ''alice''), (''started_in'', PStr ''#chan''),
                       (''url'', PStr ''http://x'')])]\<rparr>)"
    by (rule write_info_record [where aborted = "PBool False", THEN conjunct1])
       (simp_all add: world_of_def held_item_def item_of_def plain_env_def)
  from w n show ?thesis by (rule conjI)
qed

end
